theory Spec2Isabelle
  imports Complex_Main "HOL-Library.Sublist" "HOL-Library.Log_Nat"
begin

section \<open>Python text and numbers\<close>

text \<open>
  A Python \<open>str\<close> is a sequence of Unicode code points. Text that comes from the
  database or from the caller is modelled as a list of code points (\<open>pystr\<close>), because the
  sanitizer distinguishes code points above the ASCII range. Protocol text that the module
  builds from its own literals and from exception texts (fault strings, metric names) is
  only ever concatenated and is modelled as \<open>string\<close>.
\<close>

type_synonym pystr = "nat list"

definition ascii :: "string \<Rightarrow> pystr" where
  "ascii s = map of_char s"

text \<open>\<open>str(n)\<close> for a natural number: its decimal digits, most significant first.\<close>

definition digit_char :: "nat \<Rightarrow> char" where
  "digit_char d = char_of (48 + d)"

fun str_nat :: "nat \<Rightarrow> string" where
  "str_nat n = (if n < 10 then [digit_char n] else str_nat (n div 10) @ [digit_char (n mod 10)])"

declare str_nat.simps [simp del]

text \<open>\<open>str(i)\<close> for an integer: a minus sign in front of the digits of a negative one.\<close>

definition str_int :: "int \<Rightarrow> string" where
  "str_int i = (if i < 0 then CHR ''-'' # str_nat (nat (- i)) else str_nat (nat i))"

text \<open>\<open>sep.join(xs)\<close>.\<close>

fun join :: "string \<Rightarrow> string list \<Rightarrow> string" where
  "join sep [] = []"
| "join sep [x] = x"
| "join sep (x # y # ys) = x @ sep @ join sep (y # ys)"

section \<open>Sanitizer\<close>

text \<open>
  \<open>_illegal_ranges\<close>: the inclusive code point ranges of the character class that
  \<open>_illegal_xml_chars_re\<close> is compiled from.
\<close>

definition illegal_ranges :: "(nat \<times> nat) list" where
  "illegal_ranges =
    [(0x00, 0x08),
     (0x0b, 0x0c),
     (0x0e, 0x1f),
     (0x7f, 0x84),
     (0x86, 0x9f),
     (0xfdd0, 0xfddf),
     (0xfffe, 0xffff),
     (0x1fffe, 0x1ffff),
     (0x2fffe, 0x2ffff),
     (0x3fffe, 0x3ffff),
     (0x4fffe, 0x4ffff),
     (0x5fffe, 0x5ffff),
     (0x6fffe, 0x6ffff),
     (0x7fffe, 0x7ffff),
     (0x8fffe, 0x8ffff),
     (0x9fffe, 0x9ffff),
     (0xafffe, 0xaffff),
     (0xbfffe, 0xbffff),
     (0xcfffe, 0xcffff),
     (0xdfffe, 0xdffff),
     (0xefffe, 0xeffff),
     (0xffffe, 0xfffff),
     (0x10fffe, 0x10ffff)]"

text \<open>A code point matches \<open>_illegal_xml_chars_re\<close> when it lies in one of the ranges.\<close>

definition illegal_xml_char :: "nat \<Rightarrow> bool" where
  "illegal_xml_char c = list_ex (\<lambda>(lo, hi). lo \<le> c \<and> c \<le> hi) illegal_ranges"

text \<open>
  \<open>data.encode("ascii", "xmlcharrefreplace").decode("ascii")\<close>: a code point below 128
  is kept, any other one is replaced by its numeric character reference \<open>&#N;\<close> with
  \<open>N\<close> in decimal.
\<close>

definition xmlcharref :: "nat \<Rightarrow> pystr" where
  "xmlcharref c = ascii (''&#'' @ str_nat c @ '';'')"

definition xmlcharrefreplace :: "pystr \<Rightarrow> pystr" where
  "xmlcharrefreplace data = concat (map (\<lambda>c. if c < 128 then [c] else xmlcharref c) data)"

text \<open>\<open>_illegal_xml_chars_re.sub("", data)\<close>: every matching code point is removed.\<close>

definition strip_illegal :: "pystr \<Rightarrow> pystr" where
  "strip_illegal data = filter (\<lambda>c. \<not> illegal_xml_char c) data"

text \<open>
  \<open>_clean_for_xml\<close>. The argument is \<open>None\<close> or a string; \<open>if data:\<close> is false for
  \<open>None\<close> and for the empty string, and both are returned as they are.
\<close>

fun clean_for_xml :: "pystr option \<Rightarrow> pystr option" where
  "clean_for_xml None = None"
| "clean_for_xml (Some data) =
     (if data \<noteq> [] then Some (strip_illegal (xmlcharrefreplace data)) else Some data)"

section \<open>Fault taxonomy\<close>

text \<open>
  A Python exception as far as this module looks at it: the name of its class and the text
  \<open>str(exc)\<close>.
\<close>

datatype py_exception = PyExc (exc_class: string) (exc_str: string)

text \<open>The three fault classes the module defines.\<close>

datatype fault =
    XMLRPCServiceUnavailable
  | XMLRPCInvalidParamTypes string
  | XMLRPCWrappedError py_exception

text \<open>
  \<open>XMLRPCInvalidParamTypes\<close> sets no \<open>faultCode\<close> of its own: it inherits the one of
  its base class \<open>XmlRpcInvalidMethodParams\<close>. That class belongs to \<open>pyramid_rpc\<close>,
  so its code is the first argument of \<open>faultCode\<close>; in \<open>pyramid_rpc\<close> it is
  \<open>-32602\<close>, the XML-RPC fault code for invalid method parameters.
\<close>

fun faultCode :: "int \<Rightarrow> fault \<Rightarrow> int" where
  "faultCode inherited XMLRPCServiceUnavailable = -32403"
| "faultCode inherited (XMLRPCInvalidParamTypes exc) = inherited"
| "faultCode inherited (XMLRPCWrappedError exc) = -32500"

fun faultString :: "fault \<Rightarrow> string" where
  "faultString XMLRPCServiceUnavailable = ''server error; service unavailable''"
| "faultString (XMLRPCInvalidParamTypes exc) = ''client error; '' @ exc"
| "faultString (XMLRPCWrappedError exc) = exc_class exc @ '': '' @ exc_str exc"

section \<open>Durations and timestamps\<close>

text \<open>
  Python's \<open>a / b\<close> on two integers is the float nearest to the quotient: a binary
  number of 53 significant bits, rounded half to even. A float is modelled by the real
  number it stands for. The model is for a positive divisor and a quotient in the normal
  range of floats, where every quotient of this module lies: it divides by \<open>10**6\<close>
  only.

  \<open>round_half_even n d\<close> is the integer nearest to \<open>n / d\<close> for a natural number
  \<open>n\<close> and a positive \<open>d\<close>, the even one of two that are equally near.
\<close>

definition round_half_even :: "int \<Rightarrow> int \<Rightarrow> int" where
  "round_half_even n d =
     (let q = n div d; r = n mod d
      in if d < 2 * r \<or> (2 * r = d \<and> odd q) then q + 1 else q)"

text \<open>
  The binary exponent of the quotient of two positive integers: the \<open>e\<close> with
  \<open>2**e \<le> a / b < 2**(e + 1)\<close>. It is the difference of the bit lengths, or one less.
\<close>

definition quotient_exponent :: "int \<Rightarrow> int \<Rightarrow> int" where
  "quotient_exponent a b =
     (let d = bitlen a - bitlen b
      in if (if 0 \<le> d then b * 2 ^ nat d \<le> a else b \<le> a * 2 ^ nat (- d)) then d else d - 1)"

text \<open>
  The quotient is scaled by a power of two so that its integer part has 53 bits, rounded
  to an integer, and scaled back.
\<close>

definition true_divide_pos :: "int \<Rightarrow> int \<Rightarrow> real" where
  "true_divide_pos a b =
     (let shift = 52 - quotient_exponent a b
      in if 0 \<le> shift
         then real_of_int (round_half_even (a * 2 ^ nat shift) b) / 2 ^ nat shift
         else real_of_int (round_half_even a (b * 2 ^ nat (- shift))) * 2 ^ nat (- shift))"

definition true_divide :: "int \<Rightarrow> int \<Rightarrow> real" where
  "true_divide a b =
     (if a = 0 then 0
      else if 0 < a then true_divide_pos a b
      else - true_divide_pos (- a) b)"

text \<open>
  \<open>datetime.timedelta\<close> stores whole days, seconds and microseconds.
  \<open>total_seconds()\<close> divides the total number of microseconds by \<open>10**6\<close>; the
  result is a float.
\<close>

record timedelta =
  days :: int
  seconds :: int
  microseconds :: int

definition total_microseconds :: "timedelta \<Rightarrow> int" where
  "total_microseconds d = (days d * 86400 + seconds d) * 10 ^ 6 + microseconds d"

definition total_seconds :: "timedelta \<Rightarrow> real" where
  "total_seconds d = true_divide (total_microseconds d) (10 ^ 6)"

text \<open>\<open>int(x)\<close> for a float \<open>x\<close> truncates toward zero.\<close>

definition py_int :: "real \<Rightarrow> int" where
  "py_int x = (if 0 \<le> x then \<lfloor>x\<rfloor> else \<lceil>x\<rceil>)"

text \<open>
  A naive UTC \<open>datetime\<close> is modelled by its number of microseconds since the epoch.
  \<open>dt.replace(tzinfo=UTC).timestamp()\<close> is \<open>total_seconds()\<close> of the difference to
  the epoch: that number divided by \<open>10**6\<close>, a float.
\<close>

type_synonym datetime = int

definition timestamp :: "datetime \<Rightarrow> real" where
  "timestamp dt = true_divide dt (10 ^ 6)"

section \<open>Values, requests and external services\<close>

text \<open>The values that travel as XML-RPC arguments and results.\<close>

datatype pyval =
    PNone
  | PBool bool
  | PInt int
  | PStr pystr
  | PList "pyval list"
  | PTuple "pyval list"
  | PDict "(string \<times> pyval) list"

definition opt_str :: "pystr option \<Rightarrow> pyval" where
  "opt_str x = (case x of None \<Rightarrow> PNone | Some s \<Rightarrow> PStr s)"

text \<open>Exceptions other than faults that a handler lets propagate.\<close>

datatype py_error = MultipleResultsFound | TimestampOutOfRange

datatype raised = Fault fault | PyError py_error

text \<open>
  Every call to an external service is recorded, in order, in a trace: the metrics
  service, the rate limiter and the database session.
\<close>

datatype event =
    MetricsIncrement string "string list"
  | MetricsTimedEnter string "string list"
  | MetricsTimedExit string "string list"
  | LimiterHit string
  | LimiterTest string
  | LimiterResetsIn string
  | DbQuery string

text \<open>
  \<open>IRateLimiter\<close>: the three operations the module calls, over a limiter state of any
  type \<open>'l\<close>. The module does not own that state.
\<close>

record 'l IRateLimiter =
  rl_hit :: "string \<Rightarrow> 'l \<Rightarrow> 'l"
  rl_test :: "string \<Rightarrow> 'l \<Rightarrow> bool"
  rl_resets_in :: "string \<Rightarrow> 'l \<Rightarrow> timedelta option"

section \<open>Database\<close>

record JournalEntry =
  je_id :: int
  je_name :: "pystr option"
  je_version :: "pystr option"
  je_submitted_date :: datetime
  je_action :: "pystr option"

text \<open>
  Of a project, the handlers read the name, the documentation URL, the versions of
  \<open>all_versions\<close> in their order and the version of \<open>latest_version\<close>, if there is
  one.
\<close>

record Project =
  p_name :: pystr
  p_normalized_name :: pystr
  p_documentation_url :: "pystr option"
  p_all_versions :: "pystr list"
  p_latest_version :: "pystr option"

record Release =
  r_project :: Project
  r_version :: pystr
  r_home_page :: "pystr option"
  r_download_url :: "pystr option"
  r_project_urls :: "(pystr \<times> pystr) list"
  r_author :: "pystr option"
  r_author_email :: "pystr option"
  r_maintainer :: "pystr option"
  r_maintainer_email :: "pystr option"
  r_summary :: "pystr option"
  r_description_raw :: "pystr option"
  r_license :: "pystr option"
  r_keywords :: "pystr option"
  r_platform :: pyval
  r_classifiers :: "pyval list"
  r_requires :: "pyval list"
  r_requires_dist :: "pyval list"
  r_provides :: "pyval list"
  r_provides_dist :: "pyval list"
  r_obsoletes :: "pyval list"
  r_obsoletes_dist :: "pyval list"
  r_requires_python :: pyval
  r_requires_external :: "pyval list"
  r_pypi_ordering :: pyval

text \<open>
  The tables the handlers query, with the SQL function \<open>normalize_pep426_name\<close> that
  the database provides.
\<close>

record database =
  projects :: "Project list"
  releases :: "Release list"
  journals :: "JournalEntry list"
  normalize_pep426_name :: "pystr \<Rightarrow> pystr"

text \<open>
  \<open>Query.one()\<close>: the only row, \<open>NoResultFound\<close> when there is none,
  \<open>MultipleResultsFound\<close> when there are several.
\<close>

datatype 'a one_result = NoResultFound | TooManyResults | One 'a

fun one :: "'a list \<Rightarrow> 'a one_result" where
  "one [] = NoResultFound"
| "one [x] = One x"
| "one (x # y # ys) = TooManyResults"

section \<open>The world a call runs in\<close>

record 'l world =
  limiter :: 'l
  db :: database
  trace :: "event list"

definition log_event :: "event \<Rightarrow> 'l world \<Rightarrow> 'l world" where
  "log_event e w = w\<lparr>trace := trace w @ [e]\<rparr>"

record 'l request =
  remote_addr :: string
  rpc_args :: "pyval list"
  req_domain :: string
  req_settings :: "string \<rightharpoonup> string"
  route_url :: "string \<Rightarrow> (string \<times> pystr) list \<Rightarrow> pystr"
  ratelimiter :: "'l IRateLimiter"

type_synonym 'l view = "'l request \<Rightarrow> 'l world \<Rightarrow> (raised + pyval) \<times> 'l world"

section \<open>Metrics and rate limiting\<close>

text \<open>
  \<open>submit_xmlrpc_metrics(method)(f)\<close>: one increment of the call counter, then the
  view inside the timer. The timer is a context manager, so it is left on a result and on
  an exception alike, and the result of the view is returned unchanged.
\<close>

definition submit_xmlrpc_metrics :: "string \<Rightarrow> 'l view \<Rightarrow> 'l view" where
  "submit_xmlrpc_metrics method f request w =
     (let tags = [''rpc_method:'' @ method];
          w1 = log_event (MetricsIncrement ''warehouse.xmlrpc.call'' tags) w;
          w2 = log_event (MetricsTimedEnter ''warehouse.xmlrpc.timing'' tags) w1;
          (result, w3) = f request w2
      in (result, log_event (MetricsTimedExit ''warehouse.xmlrpc.timing'' tags) w3))"

text \<open>
  \<open>HTTPTooManyRequests(message)\<close>: \<open>str\<close> of a Pyramid HTTP exception built with a
  detail text is that text.
\<close>

definition HTTPTooManyRequests :: "string \<Rightarrow> py_exception" where
  "HTTPTooManyRequests message = PyExc ''HTTPTooManyRequests'' message"

definition ratelimit_message :: "timedelta option \<Rightarrow> string" where
  "ratelimit_message resets =
     (let message =
        ''The action could not be performed because there were too '' @
        ''many requests by the client.''
      in case resets of
           None \<Rightarrow> message
         | Some d \<Rightarrow>
             message @ '' Limit may reset in '' @
             str_int (max 1 (py_int (total_seconds d))) @ '' seconds.'')"

text \<open>\<open>ratelimit()(f)\<close>.\<close>

definition ratelimit :: "'l view \<Rightarrow> 'l view" where
  "ratelimit f request w =
     (let rl = ratelimiter request;
          addr = remote_addr request;
          w1 = log_event (LimiterHit addr) (w\<lparr>limiter := rl_hit rl addr (limiter w)\<rparr>);
          w2 = log_event (LimiterTest addr) w1
      in if \<not> rl_test rl addr (limiter w1) then
           let w3 = log_event (MetricsIncrement ''warehouse.xmlrpc.ratelimiter.exceeded'' []) w2;
               w4 = log_event (LimiterResetsIn addr) w3;
               resets = rl_resets_in rl addr (limiter w3)
           in (Inl (Fault (XMLRPCWrappedError (HTTPTooManyRequests (ratelimit_message resets)))),
               w4)
         else f request (log_event (MetricsIncrement ''warehouse.xmlrpc.ratelimiter.hit'' []) w2))"

section \<open>Parameter validation\<close>

text \<open>
  An entry of pydantic's \<open>ValidationError.errors()\<close>: \<open>e['loc']\<close>, a tuple of names
  and indices, and \<open>e['msg']\<close>.
\<close>

datatype loc_item = LocName string | LocIndex int

record pydantic_error =
  loc :: "loc_item list"
  msg :: string

text \<open>
  \<open>str\<close> of a tuple: the \<open>repr\<close> of each item, separated by a comma and a space, in
  parentheses, with a trailing comma when there is one item. \<open>repr\<close> of a string is a
  parameter: its quoting depends on the characters of the string.
\<close>

fun repr_item :: "(string \<Rightarrow> string) \<Rightarrow> loc_item \<Rightarrow> string" where
  "repr_item repr_str (LocName s) = repr_str s"
| "repr_item repr_str (LocIndex i) = str_int i"

definition str_tuple :: "(string \<Rightarrow> string) \<Rightarrow> loc_item list \<Rightarrow> string" where
  "str_tuple repr_str items =
     (case items of
        [x] \<Rightarrow> ''('' @ repr_item repr_str x @ '',)''
      | _ \<Rightarrow> ''('' @ join '', '' (map (repr_item repr_str) items) @ '')'')"

text \<open>The rendering \<open>f"{e['loc']}: {e['msg']}"\<close> of one entry.\<close>

definition render_error :: "(string \<Rightarrow> string) \<Rightarrow> pydantic_error \<Rightarrow> string" where
  "render_error repr_str e = str_tuple repr_str (loc e) @ '': '' @ msg e"

text \<open>
  What pydantic answers for a function and a set of arguments: nothing to report, or a
  \<open>ValidationError\<close> with its entries. The library is not part of this module, so its
  answer is a component of the function being called.
\<close>

datatype validation = Valid | ValidationError "pydantic_error list"

record 'l py_function =
  fn_validate :: "pyval list \<Rightarrow> (string \<times> pyval) list \<Rightarrow> validation"
  fn_call :: "pyval list \<Rightarrow> (string \<times> pyval) list \<Rightarrow> 'l view"

text \<open>
  \<open>TypedMapplyViewMapper.mapply\<close>. \<open>super().mapply\<close> calls the function with the
  arguments.
\<close>

definition mapply ::
  "(string \<Rightarrow> string) \<Rightarrow> 'l py_function \<Rightarrow> pyval list \<Rightarrow> (string \<times> pyval) list \<Rightarrow> 'l view" where
  "mapply repr_str fn args kwargs request w =
     (case fn_validate fn args kwargs of
        ValidationError errors \<Rightarrow>
          (Inl (Fault (XMLRPCInvalidParamTypes (join ''; '' (map (render_error repr_str) errors)))),
           w)
      | Valid \<Rightarrow> fn_call fn args kwargs request w)"

text \<open>
  The view that a mapper makes of a function: it hands the positional arguments of the
  call to \<open>mapply\<close>.
\<close>

definition mapper_view :: "(string \<Rightarrow> string) \<Rightarrow> 'l py_function \<Rightarrow> 'l view" where
  "mapper_view repr_str fn request w = mapply repr_str fn (rpc_args request) [] request w"

section \<open>Registration under several endpoints\<close>

text \<open>
  The keyword arguments of a registration: the ones the caller gives (\<open>method\<close>, here
  \<open>rpc_method\<close>, and the cache options) and the ones \<open>xmlrpc_method\<close> sets.
\<close>

datatype mapper = DefaultMapper | TypedMapplyViewMapper

record 'l view_kwargs =
  rpc_method :: string
  xmlrpc_cache :: bool
  xmlrpc_cache_expires :: "nat option"
  xmlrpc_cache_tag :: "pystr option"
  xmlrpc_cache_arg_index :: "nat option"
  xmlrpc_cache_tag_processor :: "(pystr \<Rightarrow> pystr) option"
  require_csrf :: "bool option"
  require_methods :: "string list option"
  decorator :: "('l view \<Rightarrow> 'l view) list"
  view_mapper :: mapper

text \<open>\<open>xmlrpc_method(method=m)\<close> called with nothing but the method name.\<close>

definition plain_kwargs :: "string \<Rightarrow> 'l view_kwargs" where
  "plain_kwargs m =
     \<lparr>rpc_method = m, xmlrpc_cache = False, xmlrpc_cache_expires = None, xmlrpc_cache_tag = None,
      xmlrpc_cache_arg_index = None, xmlrpc_cache_tag_processor = None, require_csrf = None,
      require_methods = None, decorator = [], view_mapper = DefaultMapper\<rparr>"

text \<open>The \<open>kwargs.update(...)\<close> of \<open>xmlrpc_method\<close>.\<close>

definition update_kwargs :: "'l view_kwargs \<Rightarrow> 'l view_kwargs" where
  "update_kwargs kwargs =
     kwargs\<lparr>require_csrf := Some False,
            require_methods := Some [''POST''],
            decorator := [submit_xmlrpc_metrics (rpc_method kwargs), ratelimit],
            view_mapper := TypedMapplyViewMapper\<rparr>"

text \<open>
  One registered view: the endpoint, the keyword arguments and the function.
  \<open>pyramid_rpc\<close>'s \<open>xmlrpc_method(endpoint=e, **kwargs)\<close> records one and returns the
  function as it is.
\<close>

record 'l registration =
  reg_endpoint :: string
  reg_kwargs :: "'l view_kwargs"
  reg_fn :: "'l py_function"

definition pyramid_xmlrpc_method ::
  "string \<Rightarrow> 'l view_kwargs \<Rightarrow> 'l py_function \<Rightarrow> 'l registration list
     \<Rightarrow> 'l py_function \<times> 'l registration list" where
  "pyramid_xmlrpc_method endpoint kwargs f registry =
     (f, registry @ [\<lparr>reg_endpoint = endpoint, reg_kwargs = kwargs, reg_fn = f\<rparr>])"

text \<open>
  \<open>xmlrpc_method(**kwargs)(f)\<close>, that is \<open>rpc2(pypi_slash(pypi(f)))\<close>: the innermost
  decorator registers first.
\<close>

definition xmlrpc_method ::
  "'l view_kwargs \<Rightarrow> 'l py_function \<Rightarrow> 'l registration list
     \<Rightarrow> 'l py_function \<times> 'l registration list" where
  "xmlrpc_method kwargs0 f registry =
     (let kwargs = update_kwargs kwargs0;
          (f1, registry1) = pyramid_xmlrpc_method ''xmlrpc.pypi'' kwargs f registry;
          (f2, registry2) = pyramid_xmlrpc_method ''xmlrpc.pypi_slash'' kwargs f1 registry1
      in pyramid_xmlrpc_method ''xmlrpc.RPC2'' kwargs f2 registry2)"

definition aliases :: "string list" where
  "aliases = [''xmlrpc.RPC2'', ''xmlrpc.pypi'', ''xmlrpc.pypi_slash'']"

text \<open>
  How a call is served: the framework finds the view registered for the endpoint and the
  method name and derives the view to run from the keyword arguments and the function of
  that registration. The derivation belongs to the framework and is a parameter of
  \<open>call_endpoint\<close>.
\<close>

fun find_registration ::
  "'l registration list \<Rightarrow> string \<Rightarrow> string \<Rightarrow> 'l registration option" where
  "find_registration [] endpoint m = None"
| "find_registration (r # rs) endpoint m =
     (if reg_endpoint r = endpoint \<and> rpc_method (reg_kwargs r) = m then Some r
      else find_registration rs endpoint m)"

definition call_endpoint ::
  "('l view_kwargs \<Rightarrow> 'l py_function \<Rightarrow> 'l view) \<Rightarrow> 'l registration list \<Rightarrow> string \<Rightarrow> string
     \<Rightarrow> 'l request \<Rightarrow> 'l world \<Rightarrow> ((raised + pyval) \<times> 'l world) option" where
  "call_endpoint derive registry endpoint m request w =
     (case find_registration registry endpoint m of
        None \<Rightarrow> None
      | Some r \<Rightarrow> Some (derive (reg_kwargs r) (reg_fn r) request w))"

text \<open>
  Pyramid's derivation as far as the keyword arguments of this module go: the mapper makes
  a view of the function, and the decorators wrap it, the first of the tuple outermost.
\<close>

definition derived_view ::
  "(string \<Rightarrow> string) \<Rightarrow> 'l view_kwargs \<Rightarrow> 'l py_function \<Rightarrow> 'l view" where
  "derived_view repr_str kwargs fn =
     foldr (\<lambda>d v. d v) (decorator kwargs)
       (case view_mapper kwargs of
          TypedMapplyViewMapper \<Rightarrow> mapper_view repr_str fn
        | DefaultMapper \<Rightarrow> (\<lambda>request. fn_call fn (rpc_args request) [] request))"

section \<open>Cache policies\<close>

text \<open>
  Modelled from the spec: \<open>canonicalize_name\<close> is imported from the \<open>packaging\<close>
  library and is not part of this module. The spec asks for a canonical form that
  normalizes case and separators; it is modelled as that library's rule: every run of
  \<open>-\<close>, \<open>_\<close> and \<open>.\<close> becomes one \<open>-\<close>, and the name is put in lower case.
  \<open>str.lower\<close> is modelled on the letters \<open>A\<close> to \<open>Z\<close>; other code points are left
  as they are.
\<close>

definition is_separator :: "nat \<Rightarrow> bool" where
  "is_separator c = (c = 45 \<or> c = 95 \<or> c = 46)"

function collapse_separators :: "pystr \<Rightarrow> pystr" where
  "collapse_separators [] = []"
| "collapse_separators (c # cs) =
     (if is_separator c then 45 # collapse_separators (dropWhile is_separator cs)
      else c # collapse_separators cs)"
  by pat_completeness auto
termination
  by (relation "measure length") (auto simp: less_Suc_eq_le length_dropWhile_le)

definition lower_char :: "nat \<Rightarrow> nat" where
  "lower_char c = (if 65 \<le> c \<and> c \<le> 90 then c + 32 else c)"

definition canonicalize_name :: "pystr \<Rightarrow> pystr" where
  "canonicalize_name name = map lower_char (collapse_separators name)"

text \<open>
  The two partial applications of \<open>xmlrpc_method\<close>: the keyword arguments each one
  adds to the method name.
\<close>

definition xmlrpc_cache_by_project_kwargs :: "string \<Rightarrow> 'l view_kwargs" where
  "xmlrpc_cache_by_project_kwargs m =
     (plain_kwargs m)
       \<lparr>xmlrpc_cache := True,
        xmlrpc_cache_expires := Some (48 * 60 * 60),
        xmlrpc_cache_tag := Some (ascii ''project/%s''),
        xmlrpc_cache_arg_index := Some 0,
        xmlrpc_cache_tag_processor := Some canonicalize_name\<rparr>"

definition xmlrpc_cache_all_projects_kwargs :: "string \<Rightarrow> 'l view_kwargs" where
  "xmlrpc_cache_all_projects_kwargs m =
     (plain_kwargs m)
       \<lparr>xmlrpc_cache := True,
        xmlrpc_cache_expires := Some (1 * 60 * 60),
        xmlrpc_cache_tag := Some (ascii ''all-projects'')\<rparr>"

definition xmlrpc_cache_by_project ::
  "string \<Rightarrow> 'l py_function \<Rightarrow> 'l registration list \<Rightarrow> 'l py_function \<times> 'l registration list" where
  "xmlrpc_cache_by_project m = xmlrpc_method (xmlrpc_cache_by_project_kwargs m)"

definition xmlrpc_cache_all_projects ::
  "string \<Rightarrow> 'l py_function \<Rightarrow> 'l registration list \<Rightarrow> 'l py_function \<times> 'l registration list" where
  "xmlrpc_cache_all_projects m = xmlrpc_method (xmlrpc_cache_all_projects_kwargs m)"

text \<open>The template with its first \<open>%s\<close> replaced.\<close>

fun substitute :: "pystr \<Rightarrow> pystr \<Rightarrow> pystr" where
  "substitute (a # b # template) x =
     (if a = 37 \<and> b = 115 then x @ template else a # substitute (b # template) x)"
| "substitute template x = template"

record CacheTag =
  ct_tag :: pystr
  ct_ttl :: nat

text \<open>
  Modelled from the spec: the cache tag resolver, which reads the cache options of a
  registration, is not part of this module. \<open>resolveTag(policy, boundArgs)\<close>: with no
  argument index the tag is the fixed string; with an argument index \<open>i\<close> it is the
  template with \<open>%s\<close> replaced by the canonicalized argument \<open>i\<close>. The time to live is
  the one the policy declares. There is no tag when the policy declares none, or when the
  argument is missing or is not text.
\<close>

definition resolveTag :: "'l view_kwargs \<Rightarrow> pyval list \<Rightarrow> CacheTag option" where
  "resolveTag policy boundArgs =
     (case (xmlrpc_cache_tag policy, xmlrpc_cache_expires policy) of
        (Some template, Some expires) \<Rightarrow>
          (case xmlrpc_cache_arg_index policy of
             None \<Rightarrow> Some \<lparr>ct_tag = template, ct_ttl = expires\<rparr>
           | Some i \<Rightarrow>
               (case (xmlrpc_cache_tag_processor policy,
                      if i < length boundArgs then boundArgs ! i else PNone) of
                  (Some canonicalize, PStr arg) \<Rightarrow>
                    Some \<lparr>ct_tag = substitute template (canonicalize arg), ct_ttl = expires\<rparr>
                | _ \<Rightarrow> None))
      | _ \<Rightarrow> None)"

section \<open>Handlers\<close>

definition XMLRPC_DEPRECATION_URL :: string where
  "XMLRPC_DEPRECATION_URL =
     ''https://warehouse.pypa.io/api-reference/xml-rpc.html#deprecated-methods''"

definition RuntimeError :: "string \<Rightarrow> py_exception" where
  "RuntimeError message = PyExc ''RuntimeError'' message"

definition ValueError :: "string \<Rightarrow> py_exception" where
  "ValueError message = PyExc ''ValueError'' message"

subsection \<open>Deprecated and removed methods\<close>

definition search :: "'l request \<Rightarrow> pyval \<Rightarrow> pyval \<Rightarrow> 'l world \<Rightarrow> (raised + pyval) \<times> 'l world" where
  "search request spec operator w =
     (let domain = (case req_settings request ''warehouse.domain'' of
                      Some d \<Rightarrow> d
                    | None \<Rightarrow> req_domain request)
      in (Inl (Fault (XMLRPCWrappedError
            (RuntimeError
              (''PyPI no longer supports 'pip search' (or XML-RPC search). '' @
               ''Please use https://'' @ domain @ ''/search (via a browser) instead. '' @
               ''See '' @ XMLRPC_DEPRECATION_URL @ '' for more information.'')))),
          w))"

definition top_packages :: "'l request \<Rightarrow> pyval \<Rightarrow> 'l world \<Rightarrow> (raised + pyval) \<times> 'l world" where
  "top_packages request num w =
     (Inl (Fault (XMLRPCWrappedError
        (RuntimeError
          (''This API has been removed. Use BigQuery instead. '' @
           ''See '' @ XMLRPC_DEPRECATION_URL @ '' for more information.'')))),
      w)"

definition package_data :: "'l request \<Rightarrow> pyval \<Rightarrow> pyval \<Rightarrow> 'l world \<Rightarrow> (raised + pyval) \<times> 'l world" where
  "package_data request package_name version w =
     (Inl (Fault (XMLRPCWrappedError
        (RuntimeError
          (''This API has been deprecated. '' @
           ''See '' @ XMLRPC_DEPRECATION_URL @ '' for more information.'')))),
      w)"

definition package_urls :: "'l request \<Rightarrow> pyval \<Rightarrow> pyval \<Rightarrow> 'l world \<Rightarrow> (raised + pyval) \<times> 'l world" where
  "package_urls request package_name version w =
     (Inl (Fault (XMLRPCWrappedError
        (RuntimeError
          (''This API has been deprecated. '' @
           ''See '' @ XMLRPC_DEPRECATION_URL @ '' for more information.'')))),
      w)"

definition multicall :: "'l request \<Rightarrow> pyval \<Rightarrow> 'l world \<Rightarrow> (raised + pyval) \<times> 'l world" where
  "multicall request args w =
     (Inl (Fault (XMLRPCWrappedError
        (ValueError
          (''MultiCall requests have been deprecated, use individual '' @
           ''requests instead.'')))),
      w)"

text \<open>
  The five handlers as the functions that are registered. \<open>super().mapply\<close> passes the
  positional arguments of the call to the parameters in their order; a parameter that
  gets none takes its default. XML-RPC calls carry positional arguments only. What
  pydantic answers for the signature is a component of each function.
\<close>

definition positional :: "nat \<Rightarrow> pyval \<Rightarrow> pyval list \<Rightarrow> pyval" where
  "positional i dflt args = (if i < length args then args ! i else dflt)"

definition search_function ::
  "(pyval list \<Rightarrow> (string \<times> pyval) list \<Rightarrow> validation) \<Rightarrow> 'l py_function" where
  "search_function validate =
     \<lparr>fn_validate = validate,
      fn_call = (\<lambda>args kwargs request.
                   search request (positional 0 PNone args)
                     (positional 1 (PStr (ascii ''and'')) args))\<rparr>"

definition top_packages_function ::
  "(pyval list \<Rightarrow> (string \<times> pyval) list \<Rightarrow> validation) \<Rightarrow> 'l py_function" where
  "top_packages_function validate =
     \<lparr>fn_validate = validate,
      fn_call = (\<lambda>args kwargs request. top_packages request (positional 0 PNone args))\<rparr>"

definition package_data_function ::
  "(pyval list \<Rightarrow> (string \<times> pyval) list \<Rightarrow> validation) \<Rightarrow> 'l py_function" where
  "package_data_function validate =
     \<lparr>fn_validate = validate,
      fn_call = (\<lambda>args kwargs request.
                   package_data request (positional 0 PNone args) (positional 1 PNone args))\<rparr>"

definition package_urls_function ::
  "(pyval list \<Rightarrow> (string \<times> pyval) list \<Rightarrow> validation) \<Rightarrow> 'l py_function" where
  "package_urls_function validate =
     \<lparr>fn_validate = validate,
      fn_call = (\<lambda>args kwargs request.
                   package_urls request (positional 0 PNone args) (positional 1 PNone args))\<rparr>"

definition multicall_function ::
  "(pyval list \<Rightarrow> (string \<times> pyval) list \<Rightarrow> validation) \<Rightarrow> 'l py_function" where
  "multicall_function validate =
     \<lparr>fn_validate = validate,
      fn_call = (\<lambda>args kwargs request. multicall request (positional 0 PNone args))\<rparr>"

subsection \<open>Lookups\<close>

definition package_releases ::
  "'l request \<Rightarrow> pystr \<Rightarrow> bool \<Rightarrow> 'l world \<Rightarrow> (raised + pyval) \<times> 'l world" where
  "package_releases request package_name show_hidden w =
     (let w1 = log_event (DbQuery ''Project'') w;
          rows = filter (\<lambda>p. p_normalized_name p = normalize_pep426_name (db w) package_name)
                   (projects (db w))
      in case one rows of
           NoResultFound \<Rightarrow> (Inr (PList []), w1)
         | TooManyResults \<Rightarrow> (Inl (PyError MultipleResultsFound), w1)
         | One project \<Rightarrow>
             if show_hidden then (Inr (PList (map PStr (p_all_versions project))), w1)
             else (case p_latest_version project of
                     None \<Rightarrow> (Inr (PList []), w1)
                   | Some latest_version \<Rightarrow> (Inr (PList [PStr latest_version]), w1)))"

definition release_dict :: "'l request \<Rightarrow> Release \<Rightarrow> (string \<times> pyval) list" where
  "release_dict request release =
     [(''name'', PStr (p_name (r_project release))),
      (''version'', PStr (r_version release)),
      (''stable_version'', PNone),
      (''bugtrack_url'', PNone),
      (''package_url'',
         PStr (route_url request ''packaging.project''
                 [(''name'', p_name (r_project release))])),
      (''release_url'',
         PStr (route_url request ''packaging.release''
                 [(''name'', p_name (r_project release)), (''version'', r_version release)])),
      (''docs_url'', opt_str (clean_for_xml (p_documentation_url (r_project release)))),
      (''home_page'', opt_str (clean_for_xml (r_home_page release))),
      (''download_url'', opt_str (clean_for_xml (r_download_url release))),
      (''project_url'',
         PList (map (\<lambda>(label, url). opt_str (clean_for_xml (Some (label @ ascii '', '' @ url))))
                  (r_project_urls release))),
      (''author'', opt_str (clean_for_xml (r_author release))),
      (''author_email'', opt_str (clean_for_xml (r_author_email release))),
      (''maintainer'', opt_str (clean_for_xml (r_maintainer release))),
      (''maintainer_email'', opt_str (clean_for_xml (r_maintainer_email release))),
      (''summary'', opt_str (clean_for_xml (r_summary release))),
      (''description'', opt_str (clean_for_xml (r_description_raw release))),
      (''license'', opt_str (clean_for_xml (r_license release))),
      (''keywords'', opt_str (clean_for_xml (r_keywords release))),
      (''platform'', r_platform release),
      (''classifiers'', PList (r_classifiers release)),
      (''requires'', PList (r_requires release)),
      (''requires_dist'', PList (r_requires_dist release)),
      (''provides'', PList (r_provides release)),
      (''provides_dist'', PList (r_provides_dist release)),
      (''obsoletes'', PList (r_obsoletes release)),
      (''obsoletes_dist'', PList (r_obsoletes_dist release)),
      (''requires_python'', r_requires_python release),
      (''requires_external'', PList (r_requires_external release)),
      (''_pypi_ordering'', r_pypi_ordering release),
      (''downloads'',
         PDict [(''last_day'', PInt (- 1)), (''last_week'', PInt (- 1)),
                (''last_month'', PInt (- 1))]),
      (''cheesecake_code_kwalitee_id'', PNone),
      (''cheesecake_documentation_id'', PNone),
      (''cheesecake_installability_id'', PNone)]"

definition release_data ::
  "'l request \<Rightarrow> pystr \<Rightarrow> pystr \<Rightarrow> 'l world \<Rightarrow> (raised + pyval) \<times> 'l world" where
  "release_data request package_name version w =
     (let w1 = log_event (DbQuery ''Release'') w;
          rows = filter
                   (\<lambda>r. p_normalized_name (r_project r) =
                          normalize_pep426_name (db w) package_name
                        \<and> r_version r = version)
                   (releases (db w))
      in case one rows of
           NoResultFound \<Rightarrow> (Inr (PDict []), w1)
         | TooManyResults \<Rightarrow> (Inl (PyError MultipleResultsFound), w1)
         | One release \<Rightarrow> (Inr (PDict (release_dict request release)), w1))"

subsection \<open>Journal\<close>

text \<open>
  \<open>order_by(JournalEntry.id)\<close> is modelled by a stable sort on the id, which is the
  primary key of the table; \<open>limit(50000)\<close> keeps the first rows.
\<close>

definition changelog_since_serial_entries :: "database \<Rightarrow> int \<Rightarrow> JournalEntry list" where
  "changelog_since_serial_entries d serial =
     take 50000 (sort_key je_id (filter (\<lambda>e. je_id e > serial) (journals d)))"

definition changelog_since_serial ::
  "'l request \<Rightarrow> int \<Rightarrow> 'l world \<Rightarrow> (raised + pyval) \<times> 'l world" where
  "changelog_since_serial request serial w =
     (let w1 = log_event (DbQuery ''JournalEntry'') w;
          entries = changelog_since_serial_entries (db w) serial
      in (Inr (PList (map (\<lambda>e. PTuple [opt_str (je_name e),
                                        opt_str (je_version e),
                                        PInt (py_int (timestamp (je_submitted_date e))),
                                        opt_str (clean_for_xml (je_action e)),
                                        PInt (je_id e)])
                       entries)),
          w1))"

text \<open>
  \<open>datetime.utcfromtimestamp(since)\<close> raises for a timestamp outside the years 1 to
  9999.
\<close>

definition utcfromtimestamp :: "int \<Rightarrow> datetime option" where
  "utcfromtimestamp since =
     (if - 62135596800 \<le> since \<and> since \<le> 253402300799 then Some (since * 10 ^ 6) else None)"

definition changelog_entries :: "database \<Rightarrow> datetime \<Rightarrow> JournalEntry list" where
  "changelog_entries d since_dt =
     take 50000 (sort_key je_id (filter (\<lambda>e. je_submitted_date e > since_dt) (journals d)))"

definition changelog ::
  "'l request \<Rightarrow> int \<Rightarrow> bool \<Rightarrow> 'l world \<Rightarrow> (raised + pyval) \<times> 'l world" where
  "changelog request since with_ids w =
     (case utcfromtimestamp since of
        None \<Rightarrow> (Inl (PyError TimestampOutOfRange), w)
      | Some since_dt \<Rightarrow>
          (let w1 = log_event (DbQuery ''JournalEntry'') w;
               results = map (\<lambda>e. [opt_str (je_name e),
                                   opt_str (je_version e),
                                   PInt (py_int (timestamp (je_submitted_date e))),
                                   opt_str (je_action e),
                                   PInt (je_id e)])
                           (changelog_entries (db w) since_dt)
           in if with_ids then (Inr (PList (map PTuple results)), w1)
              else (Inr (PList (map (\<lambda>r. PTuple (butlast r)) results)), w1)))"

section \<open>Reading a trace\<close>

text \<open>The number of hits recorded for a caller in a trace.\<close>

definition hits :: "string \<Rightarrow> event list \<Rightarrow> nat" where
  "hits addr tr = length (filter (\<lambda>e. e = LimiterHit addr) tr)"

text \<open>The database queries recorded in a trace.\<close>

definition db_queries :: "event list \<Rightarrow> event list" where
  "db_queries tr = filter (\<lambda>e. case e of DbQuery table \<Rightarrow> True | _ \<Rightarrow> False) tr"

section \<open>Example instances\<close>

text \<open>
  A limiter that counts the hits of all callers together, admits the first two and
  answers a reset time of one and a half seconds.
\<close>

definition example_resets :: timedelta where
  "example_resets = \<lparr>days = 0, seconds = 1, microseconds = 500000\<rparr>"

definition example_limiter :: "nat IRateLimiter" where
  "example_limiter =
     \<lparr>rl_hit = (\<lambda>addr n. Suc n),
      rl_test = (\<lambda>addr n. n \<le> 2),
      rl_resets_in = (\<lambda>addr n. Some example_resets)\<rparr>"

definition example_journal :: "JournalEntry list" where
  "example_journal =
     [\<lparr>je_id = 7, je_name = Some (ascii ''b''), je_version = Some (ascii ''2.0''),
       je_submitted_date = 3000000, je_action = Some (ascii ''new release'')\<rparr>,
      \<lparr>je_id = 5, je_name = Some (ascii ''a''), je_version = None,
       je_submitted_date = 1500000, je_action = Some (ascii ''create'')\<rparr>,
      \<lparr>je_id = 6, je_name = Some (ascii ''a''), je_version = Some (ascii ''1.0''),
       je_submitted_date = 2000000, je_action = None\<rparr>]"

definition example_project :: Project where
  "example_project =
     \<lparr>p_name = ascii ''Foo'', p_normalized_name = ascii ''foo'', p_documentation_url = None,
      p_all_versions = [ascii ''1.0''], p_latest_version = Some (ascii ''1.0'')\<rparr>"

definition example_release :: Release where
  "example_release =
     \<lparr>r_project = example_project, r_version = ascii ''1.0'', r_home_page = None,
      r_download_url = None, r_project_urls = [], r_author = None, r_author_email = None,
      r_maintainer = None, r_maintainer_email = None, r_summary = None,
      r_description_raw = None, r_license = None, r_keywords = None, r_platform = PNone,
      r_classifiers = [], r_requires = [], r_requires_dist = [], r_provides = [],
      r_provides_dist = [], r_obsoletes = [], r_obsoletes_dist = [],
      r_requires_python = PNone, r_requires_external = [], r_pypi_ordering = PInt 0\<rparr>"

definition example_db :: database where
  "example_db =
     \<lparr>projects = [example_project], releases = [example_release],
      journals = example_journal, normalize_pep426_name = canonicalize_name\<rparr>"

definition example_world :: "nat \<Rightarrow> nat world" where
  "example_world n = \<lparr>limiter = n, db = example_db, trace = []\<rparr>"

definition example_request :: "nat request" where
  "example_request =
     \<lparr>remote_addr = ''192.0.2.1'',
      rpc_args = [PStr (ascii ''foo''), PStr (ascii ''5'')],
      req_domain = ''pypi.org'',
      req_settings = Map.empty,
      route_url = (\<lambda>route args. ascii route),
      ratelimiter = example_limiter\<rparr>"

text \<open>
  A function of a name and a count that answers its arguments, with what pydantic
  reports when the two arguments are not a string and an integer.
\<close>

definition example_errors :: "pydantic_error list" where
  "example_errors =
     [\<lparr>loc = [LocName ''name''], msg = ''str type expected''\<rparr>,
      \<lparr>loc = [LocName ''count''], msg = ''value is not a valid integer''\<rparr>]"

definition example_function :: "nat py_function" where
  "example_function =
     \<lparr>fn_validate = (\<lambda>args kwargs. case args of
                                     [PStr name, PInt count] \<Rightarrow> Valid
                                   | _ \<Rightarrow> ValidationError example_errors),
      fn_call = (\<lambda>args kwargs request w. (Inr (PList args), w))\<rparr>"

definition example_repr :: "string \<Rightarrow> string" where
  "example_repr s = [CHR 0x27] @ s @ [CHR 0x27]"

text \<open>
  What pydantic reports for the signature of \<open>top_packages\<close>,
  \<open>(request, num: StrictInt | None = None)\<close>, on the positional arguments of a call:
  an argument for \<open>num\<close> that is neither \<open>None\<close> nor an integer is not a valid
  integer, and more than one argument is more than the two positional parameters, the
  request included, can take.
\<close>

definition pydantic_top_packages :: "pyval list \<Rightarrow> (string \<times> pyval) list \<Rightarrow> validation" where
  "pydantic_top_packages args kwargs =
     (let num_errors =
            (case args of
               [] \<Rightarrow> []
             | PNone # rest \<Rightarrow> []
             | PInt n # rest \<Rightarrow> []
             | other # rest \<Rightarrow> [\<lparr>loc = [LocName ''num''], msg = ''value is not a valid integer''\<rparr>]);
          args_errors =
            (if 1 < length args
             then [\<lparr>loc = [LocName ''args''],
                    msg = ''2 positional arguments expected but '' @
                          str_nat (length args + 1) @ '' given''\<rparr>]
             else [])
      in if num_errors @ args_errors = [] then Valid
         else ValidationError (num_errors @ args_errors))"

section \<open>Properties of the sanitizer\<close>

lemma digit_char_range:
  assumes "d < 10"
  shows "of_char (digit_char d) \<in> {48 ..< 58::nat}"
  using assms by (simp add: digit_char_def)

lemma str_nat_digits: "\<forall>c \<in> set (str_nat n). of_char c \<in> {48 ..< 58::nat}"
proof (induction n rule: str_nat.induct)
  case (1 n)
  show ?case
  proof (cases "n < 10")
    case True
    then show ?thesis
      using digit_char_range [of n] by (subst str_nat.simps) simp
  next
    case False
    have "n mod 10 < 10" by simp
    then have "of_char (digit_char (n mod 10)) \<in> {48 ..< 58::nat}"
      by (rule digit_char_range)
    with False "1.IH" show ?thesis
      by (subst str_nat.simps) auto
  qed
qed

lemma xmlcharref_ascii: "\<forall>c \<in> set (xmlcharref n). c < 128"
  using str_nat_digits [of n] by (auto simp: xmlcharref_def ascii_def)

lemma xmlcharrefreplace_ascii: "\<forall>c \<in> set (xmlcharrefreplace data). c < 128"
  using xmlcharref_ascii by (auto simp: xmlcharrefreplace_def split: if_splits)

lemma xmlcharrefreplace_id:
  assumes "\<forall>c \<in> set data. c < 128"
  shows "xmlcharrefreplace data = data"
  using assms by (induction data) (auto simp: xmlcharrefreplace_def)

lemma strip_illegal_ascii:
  assumes "\<forall>c \<in> set data. c < 128"
  shows "\<forall>c \<in> set (strip_illegal data). c < 128"
  using assms by (simp add: strip_illegal_def)

lemma strip_illegal_idem: "strip_illegal (strip_illegal data) = strip_illegal data"
  by (simp add: strip_illegal_def)

text \<open>A cleaned text is plain ASCII without illegal characters, so cleaning keeps it.\<close>

lemma clean_nonempty_idem:
  "clean_for_xml (Some (strip_illegal (xmlcharrefreplace data))) =
     Some (strip_illegal (xmlcharrefreplace data))"
proof -
  let ?y = "strip_illegal (xmlcharrefreplace data)"
  have "\<forall>c \<in> set ?y. c < 128"
    by (rule strip_illegal_ascii) (rule xmlcharrefreplace_ascii)
  then have "xmlcharrefreplace ?y = ?y"
    by (rule xmlcharrefreplace_id)
  then show ?thesis
    by (simp add: strip_illegal_idem)
qed

text \<open>
  C5. The sanitizer is idempotent: cleaning a cleaned text changes nothing, whatever the
  input (a text or \<open>None\<close>). The empty string and \<open>None\<close> are returned unchanged.
\<close>

theorem clean_for_xml_idempotent:
  "clean_for_xml (clean_for_xml x) = clean_for_xml x
   \<and> clean_for_xml (Some []) = Some []
   \<and> clean_for_xml None = None"
proof (cases x)
  case None
  then show ?thesis by simp
next
  case (Some data)
  then show ?thesis
    using clean_nonempty_idem [of data] by (cases "data = []") simp_all
qed

section \<open>Properties of the fault taxonomy\<close>

text \<open>
  C6. Each fault class has a fixed code: \<open>-32403\<close> for a service-unavailable fault,
  \<open>-32500\<close> for a wrapped error, and for an invalid-parameters fault the code of the
  base class; with the base class's code \<open>-32602\<close> the three codes are distinct, and
  in particular the code of a wrapped error is not the one of an invalid-parameters
  fault. A service-unavailable fault always has the message
  \<open>server error; service unavailable\<close>; the message of a wrapped error is the class
  name of the wrapped exception, a colon and a space, and the text of the exception.
\<close>

theorem fault_codes_and_messages:
  "faultCode inherited XMLRPCServiceUnavailable = - 32403
   \<and> faultString XMLRPCServiceUnavailable = ''server error; service unavailable''
   \<and> faultCode inherited (XMLRPCWrappedError e) = - 32500
   \<and> faultString (XMLRPCWrappedError e) = exc_class e @ '': '' @ exc_str e
   \<and> faultCode inherited (XMLRPCInvalidParamTypes m) = inherited
   \<and> faultCode inherited XMLRPCServiceUnavailable \<noteq> faultCode inherited (XMLRPCWrappedError e)
   \<and> (inherited = - 32602 \<longrightarrow>
        distinct [faultCode inherited XMLRPCServiceUnavailable,
                  faultCode inherited (XMLRPCInvalidParamTypes m),
                  faultCode inherited (XMLRPCWrappedError e)])"
  by simp

theorem fault_codes_and_messages_witness:
  "distinct [faultCode (- 32602) XMLRPCServiceUnavailable,
             faultCode (- 32602) (XMLRPCInvalidParamTypes ''('count',): str type expected''),
             faultCode (- 32602) (XMLRPCWrappedError (RuntimeError ''removed''))]
   \<and> faultString (XMLRPCWrappedError (RuntimeError ''removed'')) = ''RuntimeError: removed''"
  using fault_codes_and_messages
          [of "- 32602" "RuntimeError ''removed''" "''('count',): str type expected''"]
  by (simp add: RuntimeError_def)

section \<open>Properties of parameter validation\<close>

lemma sublist_prepend:
  assumes "sublist xs ys"
  shows "sublist xs (ps @ ys)"
  using assms by (simp add: sublist_append)

lemma sublist_join:
  assumes "x \<in> set xs"
  shows "sublist x (join sep xs)"
  using assms
proof (induction sep xs rule: join.induct)
  case (1 sep)
  then show ?case by simp
next
  case (2 sep y)
  then show ?case by simp
next
  case (3 sep y z zs)
  show ?case
  proof (cases "x = y")
    case True
    then show ?thesis by simp
  next
    case False
    with 3 have "sublist x (join sep (z # zs))" by simp
    then have "sublist x ((y @ sep) @ join sep (z # zs))"
      by (rule sublist_prepend)
    then show ?thesis by simp
  qed
qed

text \<open>
  C2. Whenever pydantic reports violations for the arguments of a call, \<open>mapply\<close> raises
  one invalid-parameters fault and does not call the function. The message of the fault is
  \<open>client error; \<close> followed by the renderings of all the violations, joined by
  \<open>; \<close>; each violation is rendered as its parameter path, a colon and a space, and
  its reason, and each rendering occurs in the message.
\<close>

theorem mapply_reports_every_violation:
  assumes "fn_validate fn args kwargs = ValidationError errors"
  shows "mapply repr_str fn args kwargs request w =
           (Inl (Fault (XMLRPCInvalidParamTypes (join ''; '' (map (render_error repr_str) errors)))), w)
         \<and> faultString (XMLRPCInvalidParamTypes (join ''; '' (map (render_error repr_str) errors))) =
             ''client error; '' @ join ''; '' (map (render_error repr_str) errors)
         \<and> (\<forall>e \<in> set errors.
               render_error repr_str e = str_tuple repr_str (loc e) @ '': '' @ msg e
               \<and> sublist (render_error repr_str e)
                   (faultString (XMLRPCInvalidParamTypes
                      (join ''; '' (map (render_error repr_str) errors)))))"
proof -
  let ?m = "join ''; '' (map (render_error repr_str) errors)"
  have call: "mapply repr_str fn args kwargs request w = (Inl (Fault (XMLRPCInvalidParamTypes ?m)), w)"
    using assms by (simp add: mapply_def)
  have str: "faultString (XMLRPCInvalidParamTypes ?m) = ''client error; '' @ ?m"
    by (simp only: faultString.simps)
  have each: "sublist (render_error repr_str e) (faultString (XMLRPCInvalidParamTypes ?m))"
    if "e \<in> set errors" for e
  proof -
    from that have "render_error repr_str e \<in> set (map (render_error repr_str) errors)"
      by simp
    then have "sublist (render_error repr_str e) ?m"
      by (rule sublist_join)
    then have "sublist (render_error repr_str e) (''client error; '' @ ?m)"
      by (rule sublist_prepend)
    then show ?thesis
      by (simp only: str)
  qed
  have rendered: "render_error repr_str e = str_tuple repr_str (loc e) @ '': '' @ msg e" for e
    by (simp only: render_error_def)
  from call str each rendered show ?thesis
    by blast
qed

theorem mapply_reports_every_violation_witness:
  "fn_validate example_function (rpc_args example_request) [] = ValidationError example_errors
   \<and> mapply example_repr example_function (rpc_args example_request) [] example_request
       (example_world 0) =
       (Inl (Fault (XMLRPCInvalidParamTypes
          ''('name',): str type expected; ('count',): value is not a valid integer'')),
        example_world 0)
   \<and> sublist ''('count',): value is not a valid integer''
       (faultString (XMLRPCInvalidParamTypes
          (join ''; '' (map (render_error example_repr) example_errors))))"
proof -
  have h: "fn_validate example_function (rpc_args example_request) [] =
             ValidationError example_errors"
    by (simp add: example_function_def example_request_def ascii_def)
  have r: "join ''; '' (map (render_error example_repr) example_errors) =
             ''('name',): str type expected; ('count',): value is not a valid integer''"
    by (simp add: example_errors_def render_error_def str_tuple_def example_repr_def)
  have m: "\<lparr>loc = [LocName ''count''], msg = ''value is not a valid integer''\<rparr> \<in> set example_errors"
    by (simp add: example_errors_def)
  have e: "render_error example_repr \<lparr>loc = [LocName ''count''], msg = ''value is not a valid integer''\<rparr>
             = ''('count',): value is not a valid integer''"
    by (simp add: render_error_def str_tuple_def example_repr_def)
  from mapply_reports_every_violation [OF h, of example_repr example_request "example_world 0"] h r m e
  show ?thesis
    by (metis (no_types, lifting))
qed

section \<open>Properties of float division\<close>

text \<open>
  Dividing by \<open>10**6\<close> and truncating gives the whole part of the exact quotient as
  long as the quotient is below \<open>2**33\<close>: there the rounding error of the float is
  less than one millionth. Beyond that the float can reach the next integer.
\<close>

lemma round_half_even_bounds:
  assumes "0 < d"
  shows "2 * (round_half_even n d * d) \<le> 2 * n + d"
    and "2 * n - d \<le> 2 * (round_half_even n d * d)"
    and "n mod d = 0 \<Longrightarrow> round_half_even n d * d = n"
proof -
  define q where "q = n div d"
  define r where "r = n mod d"
  have n: "n = q * d + r"
    by (simp add: q_def r_def)
  have r: "0 \<le> r" "r < d"
    using assms by (simp_all add: r_def)
  define m where "m = round_half_even n d"
  have m: "m = (if d < 2 * r \<or> (2 * r = d \<and> odd q) then q + 1 else q)"
    by (simp add: m_def round_half_even_def Let_def q_def r_def)
  have up: "(q + 1) * d = q * d + d"
    by (simp add: algebra_simps)
  have "2 * (m * d) \<le> 2 * n + d"
    unfolding m n using r by (auto simp: up)
  then show "2 * (round_half_even n d * d) \<le> 2 * n + d"
    by (simp only: m_def)
  have "2 * n - d \<le> 2 * (m * d)"
    unfolding m n using r by (auto simp: up)
  then show "2 * n - d \<le> 2 * (round_half_even n d * d)"
    by (simp only: m_def)
  show "round_half_even n d * d = n" if "n mod d = 0"
  proof -
    from that have "r = 0" by (simp add: r_def)
    with assms have "m * d = n"
      unfolding m n by auto
    then show ?thesis by (simp only: m_def)
  qed
qed

lemma bitlen_million: "bitlen 1000000 = 20"
  by code_simp

lemma quotient_exponent_bound:
  assumes "0 < a" "a < 2 ^ 33 * 1000000"
  shows "quotient_exponent a 1000000 \<le> 32"
proof -
  have "a < 2 ^ nat 53" using assms by simp
  then have "bitlen a \<le> 53"
    by (simp add: bitlen_le_iff_power)
  then have d: "bitlen a - bitlen 1000000 \<le> 33"
    by (simp add: bitlen_million)
  show ?thesis
  proof (cases "bitlen a - bitlen 1000000 = 33")
    case True
    then have "\<not> (1000000 * 2 ^ nat (bitlen a - bitlen 1000000) \<le> a)"
      using assms by simp
    with True show ?thesis
      by (simp add: quotient_exponent_def Let_def)
  next
    case False
    with d have "bitlen a - bitlen 1000000 \<le> 32" by simp
    then show ?thesis
      by (auto simp: quotient_exponent_def Let_def)
  qed
qed

lemma rounded_quotient_bounds:
  fixes a P :: int
  assumes a: "0 \<le> a" and P: "2 ^ 20 \<le> P"
  defines "m \<equiv> round_half_even (a * P) 1000000"
  shows "(a div 1000000) * P \<le> m"
    and "m < (a div 1000000) * P + P"
    and "a mod 1000000 = 0 \<Longrightarrow> m = (a div 1000000) * P"
    and "a mod 1000000 \<noteq> 0 \<Longrightarrow> (a div 1000000) * P < m"
proof -
  define k where "k = a div 1000000"
  define f where "f = a mod 1000000"
  define K where "K = k * P"
  define F where "F = f * P"
  have f: "0 \<le> f" "f \<le> 999999"
    by (simp_all add: f_def)
  have "a = k * 1000000 + f"
    by (simp add: k_def f_def)
  then have aP: "a * P = 1000000 * K + F"
    by (simp add: K_def F_def algebra_simps)
  have P0: "0 < P" using P by simp
  have F0: "0 \<le> F"
    using f P0 by (simp add: F_def)
  have F1: "F \<le> 999999 * P"
    unfolding F_def using f P0 by (intro mult_right_mono) simp_all
  have F2: "P \<le> F" if "f \<noteq> 0"
  proof -
    from that f have "1 \<le> f" by simp
    then have "1 * P \<le> f * P" using P0 by (intro mult_right_mono) simp_all
    then show ?thesis by (simp add: F_def)
  qed
  have up: "2 * (m * 1000000) \<le> 2 * (a * P) + 1000000"
    unfolding m_def by (rule round_half_even_bounds) simp
  have lo: "2 * (a * P) - 1000000 \<le> 2 * (m * 1000000)"
    unfolding m_def by (rule round_half_even_bounds) simp
  have P': "1048576 \<le> P" using P by simp
  show "(a div 1000000) * P \<le> m"
    using lo F0 unfolding aP k_def [symmetric] K_def [symmetric] by simp
  show "m < (a div 1000000) * P + P"
    using up F1 P' unfolding aP k_def [symmetric] K_def [symmetric] by simp
  show "m = (a div 1000000) * P" if "a mod 1000000 = 0"
  proof -
    from that have "f = 0" by (simp add: f_def)
    then have "F = 0" by (simp add: F_def)
    with up lo show ?thesis
      unfolding aP k_def [symmetric] K_def [symmetric] by simp
  qed
  show "(a div 1000000) * P < m" if "a mod 1000000 \<noteq> 0"
  proof -
    from that have "f \<noteq> 0" by (simp add: f_def)
    then have "P \<le> F" by (rule F2)
    with lo P' show ?thesis
      unfolding aP k_def [symmetric] K_def [symmetric] by simp
  qed
qed

lemma true_divide_pos_exact:
  assumes "0 < a" "a < 2 ^ 33 * 1000000"
  shows "\<lfloor>true_divide_pos a 1000000\<rfloor> = a div 1000000"
    and "\<lceil>true_divide_pos a 1000000\<rceil> = - ((- a) div 1000000)"
proof -
  define s where "s = nat (52 - quotient_exponent a 1000000)"
  define P :: int where "P = 2 ^ s"
  define m where "m = round_half_even (a * P) 1000000"
  have e: "quotient_exponent a 1000000 \<le> 32"
    using assms by (rule quotient_exponent_bound)
  then have s: "20 \<le> s"
    by (simp add: s_def)
  then have P: "2 ^ 20 \<le> P"
    unfolding P_def by (intro power_increasing) simp_all
  then have P0: "0 < P" by simp
  have quot: "true_divide_pos a 1000000 = real_of_int m / real_of_int P"
    using e by (simp add: true_divide_pos_def Let_def m_def P_def s_def)
  have a0: "0 \<le> a" using assms by simp
  note b = rounded_quotient_bounds [OF a0 P, folded m_def]
  have fl: "m div P = a div 1000000"
  proof -
    have "m = (a div 1000000) * P + (m - (a div 1000000) * P)" by simp
    moreover have "0 \<le> m - (a div 1000000) * P" "m - (a div 1000000) * P < P"
      using b(1) b(2) by simp_all
    ultimately show ?thesis
      by (metis div_pos_pos_trivial div_mult_self3 add.commute add.right_neutral P0 less_irrefl)
  qed
  show "\<lfloor>true_divide_pos a 1000000\<rfloor> = a div 1000000"
    unfolding quot floor_divide_of_int_eq by (rule fl)
  show "\<lceil>true_divide_pos a 1000000\<rceil> = - ((- a) div 1000000)"
  proof (cases "a mod 1000000 = 0")
    case True
    then have "m = (a div 1000000) * P" by (rule b(3))
    then have "real_of_int m / real_of_int P = real_of_int (a div 1000000)"
      using P0 by simp
    moreover from True have "- ((- a) div 1000000) = a div 1000000"
      by (metis dvd_neg_div mod_eq_0_iff_dvd add.inverse_inverse)
    ultimately show ?thesis
      unfolding quot by simp
  next
    case False
    then have lt: "(a div 1000000) * P < m" by (rule b(4))
    have "real_of_int (a div 1000000) < real_of_int m / real_of_int P"
      using lt P0 by (simp add: pos_less_divide_eq flip: of_int_mult)
    moreover have "real_of_int m / real_of_int P \<le> real_of_int (a div 1000000 + 1)"
      using b(2) P0 by (simp add: pos_divide_le_eq algebra_simps flip: of_int_mult of_int_add)
    ultimately have "\<lceil>real_of_int m / real_of_int P\<rceil> = a div 1000000 + 1"
      by (intro ceiling_unique) simp_all
    moreover from False have "- ((- a) div 1000000) = a div 1000000 + 1"
      by (simp add: zdiv_zminus1_eq_if)
    ultimately show ?thesis
      unfolding quot by simp
  qed
qed

lemma py_int_true_divide:
  assumes "\<bar>a\<bar> < 2 ^ 33 * 1000000"
  shows "py_int (true_divide a 1000000) =
           (if 0 \<le> a then a div 1000000 else - ((- a) div 1000000))"
proof -
  consider "a = 0" | "0 < a" | "a < 0" by linarith
  then show ?thesis
  proof cases
    case 1
    then show ?thesis by (simp add: true_divide_def py_int_def)
  next
    case 2
    with assms have f: "\<lfloor>true_divide_pos a 1000000\<rfloor> = a div 1000000"
      by (intro true_divide_pos_exact) simp_all
    have "0 \<le> a div 1000000" using 2 by (simp add: pos_imp_zdiv_nonneg_iff)
    with f have "0 \<le> true_divide_pos a 1000000"
      by (metis floor_less_zero not_le)
    with 2 f show ?thesis
      by (simp add: true_divide_def py_int_def)
  next
    case 3
    with assms have f: "\<lfloor>true_divide_pos (- a) 1000000\<rfloor> = (- a) div 1000000"
      by (intro true_divide_pos_exact) simp_all
    have "0 \<le> (- a) div 1000000" using 3 by (simp add: pos_imp_zdiv_nonneg_iff)
    with f have nn: "0 \<le> true_divide_pos (- a) 1000000"
      by (metis floor_less_zero not_le)
    have "py_int (- true_divide_pos (- a) 1000000) = - \<lfloor>true_divide_pos (- a) 1000000\<rfloor>"
      using nn by (auto simp: py_int_def ceiling_def)
    with 3 f show ?thesis
      by (simp add: true_divide_def)
  qed
qed

lemma ceiling_true_divide:
  assumes "0 < a" "a < 2 ^ 33 * 1000000"
  shows "\<lceil>true_divide a 1000000\<rceil> = - ((- a) div 1000000)"
  using assms true_divide_pos_exact(2) [of a] by (simp add: true_divide_def)

lemma py_int_total_seconds:
  assumes "\<bar>total_microseconds d\<bar> < 2 ^ 33 * 10 ^ 6"
  shows "py_int (total_seconds d) =
           (if 0 \<le> total_microseconds d then total_microseconds d div 10 ^ 6
            else - ((- total_microseconds d) div 10 ^ 6))"
  using py_int_true_divide [of "total_microseconds d"] assms
  by (simp add: total_seconds_def)

lemma py_int_timestamp:
  assumes "\<bar>dt\<bar> < 2 ^ 33 * 10 ^ 6"
  shows "py_int (timestamp dt) = (if 0 \<le> dt then dt div 10 ^ 6 else - ((- dt) div 10 ^ 6))"
  using py_int_true_divide [of dt] assms
  by (simp add: timestamp_def)

text \<open>
  At \<open>timedelta(seconds=2**34, microseconds=999999)\<close> the float is the next whole
  number of seconds, and so is the model.
\<close>

lemma total_seconds_rounds_up_beyond_the_bound:
  "py_int (total_seconds \<lparr>days = 0, seconds = 2 ^ 34, microseconds = 999999\<rparr>) = 17179869185"
  by code_simp

section \<open>Properties of the rate limiter adapter\<close>

lemma faultString_too_many:
  "faultString (XMLRPCWrappedError (HTTPTooManyRequests m)) = ''HTTPTooManyRequests: '' @ m"
  by (simp add: HTTPTooManyRequests_def)

lemma ratelimit_message_split:
  "ratelimit_message resets =
     ''The action could not be performed because there were '' @ ''too many requests'' @
     '' by the client.'' @
     (case resets of
        None \<Rightarrow> []
      | Some d \<Rightarrow> '' Limit may reset in '' @ str_int (max 1 (py_int (total_seconds d))) @
                  '' seconds.'')"
  by (cases resets) (simp_all add: ratelimit_message_def)

lemma ratelimit_message_contains:
  "sublist ''too many requests''
     (faultString (XMLRPCWrappedError (HTTPTooManyRequests (ratelimit_message resets))))"
proof -
  have "sublist ''too many requests'' (ratelimit_message resets)"
    by (subst ratelimit_message_split) (rule sublist_appendI)
  then show ?thesis
    unfolding faultString_too_many by (rule sublist_prepend)
qed

lemma ratelimit_message_reset:
  "suffix ('' Limit may reset in '' @ str_int (max 1 (py_int (total_seconds d))) @ '' seconds.'')
     (faultString (XMLRPCWrappedError (HTTPTooManyRequests (ratelimit_message (Some d)))))"
proof -
  have "suffix ('' Limit may reset in '' @ str_int (max 1 (py_int (total_seconds d))) @ '' seconds.'')
          (ratelimit_message (Some d))"
    unfolding ratelimit_message_def Let_def option.case
    by (rule suffixI) simp
  then show ?thesis
    unfolding faultString_too_many by (rule suffix_appendI)
qed

lemma ratelimit_rejects:
  assumes "\<not> rl_test (ratelimiter request) (remote_addr request)
               (rl_hit (ratelimiter request) (remote_addr request) (limiter w))"
  shows "fst (ratelimit f request w) =
           Inl (Fault (XMLRPCWrappedError (HTTPTooManyRequests (ratelimit_message
             (rl_resets_in (ratelimiter request) (remote_addr request)
                (rl_hit (ratelimiter request) (remote_addr request) (limiter w)))))))"
  using assms by (simp add: ratelimit_def log_event_def Let_def)

text \<open>
  C1, as the code has it. When the limiter reports the caller over quota, \<open>ratelimit\<close>
  raises a wrapped \<open>HTTPTooManyRequests\<close> whose fault message contains
  \<open>too many requests\<close>. When the limiter reports no reset time the text of the
  exception is the fixed sentence alone. When it reports a reset time \<open>d\<close> the message
  ends with \<open> Limit may reset in N seconds.\<close> where \<open>N\<close> is
  \<open>max(1, int(d.total_seconds()))\<close>: the float truncated toward zero, not rounded up,
  and at least 1. For every \<open>d\<close> shorter than \<open>2**33\<close> seconds that is the number of
  whole seconds of \<open>d\<close>.
\<close>

theorem ratelimit_over_quota_message:
  assumes "\<not> rl_test (ratelimiter request) (remote_addr request)
               (rl_hit (ratelimiter request) (remote_addr request) (limiter w))"
  shows "\<exists>message.
           fst (ratelimit f request w) =
             Inl (Fault (XMLRPCWrappedError (HTTPTooManyRequests message)))
           \<and> sublist ''too many requests''
               (faultString (XMLRPCWrappedError (HTTPTooManyRequests message)))
           \<and> (case rl_resets_in (ratelimiter request) (remote_addr request)
                     (rl_hit (ratelimiter request) (remote_addr request) (limiter w)) of
                None \<Rightarrow>
                  message =
                    ''The action could not be performed because there were too many requests by the client.''
              | Some d \<Rightarrow>
                  suffix ('' Limit may reset in '' @
                          str_int (max 1 (py_int (total_seconds d))) @ '' seconds.'')
                    (faultString (XMLRPCWrappedError (HTTPTooManyRequests message)))
                  \<and> (\<bar>total_microseconds d\<bar> < 2 ^ 33 * 10 ^ 6 \<longrightarrow>
                       py_int (total_seconds d) =
                         (if 0 \<le> total_microseconds d then total_microseconds d div 10 ^ 6
                          else - ((- total_microseconds d) div 10 ^ 6))))"
proof -
  let ?resets = "rl_resets_in (ratelimiter request) (remote_addr request)
                   (rl_hit (ratelimiter request) (remote_addr request) (limiter w))"
  have a: "fst (ratelimit f request w) =
             Inl (Fault (XMLRPCWrappedError (HTTPTooManyRequests (ratelimit_message ?resets))))"
    using assms by (rule ratelimit_rejects)
  have b: "sublist ''too many requests''
             (faultString (XMLRPCWrappedError (HTTPTooManyRequests (ratelimit_message ?resets))))"
    by (rule ratelimit_message_contains)
  have c: "case ?resets of
             None \<Rightarrow>
               ratelimit_message ?resets =
                 ''The action could not be performed because there were too many requests by the client.''
           | Some d \<Rightarrow>
               suffix ('' Limit may reset in '' @
                       str_int (max 1 (py_int (total_seconds d))) @ '' seconds.'')
                 (faultString (XMLRPCWrappedError (HTTPTooManyRequests (ratelimit_message ?resets))))
               \<and> (\<bar>total_microseconds d\<bar> < 2 ^ 33 * 10 ^ 6 \<longrightarrow>
                    py_int (total_seconds d) =
                      (if 0 \<le> total_microseconds d then total_microseconds d div 10 ^ 6
                       else - ((- total_microseconds d) div 10 ^ 6)))"
  proof (cases ?resets)
    case None
    then show ?thesis by (simp add: ratelimit_message_def)
  next
    case (Some d)
    have "suffix ('' Limit may reset in '' @
                  str_int (max 1 (py_int (total_seconds d))) @ '' seconds.'')
            (faultString (XMLRPCWrappedError (HTTPTooManyRequests (ratelimit_message (Some d)))))"
      by (rule ratelimit_message_reset)
    moreover have "\<bar>total_microseconds d\<bar> < 2 ^ 33 * 10 ^ 6 \<longrightarrow>
                    py_int (total_seconds d) =
                      (if 0 \<le> total_microseconds d then total_microseconds d div 10 ^ 6
                       else - ((- total_microseconds d) div 10 ^ 6))"
      using py_int_total_seconds [of d] by blast
    ultimately show ?thesis
      using Some by (simp only: option.case)
  qed
  from a b c show ?thesis by blast
qed

theorem ratelimit_over_quota_message_witness:
  "\<not> rl_test (ratelimiter example_request) (remote_addr example_request)
        (rl_hit (ratelimiter example_request) (remote_addr example_request)
           (limiter (example_world 2)))
   \<and> (\<exists>message.
         fst (ratelimit (mapper_view example_repr example_function) example_request
                (example_world 2)) =
           Inl (Fault (XMLRPCWrappedError (HTTPTooManyRequests message)))
         \<and> sublist ''too many requests''
             (faultString (XMLRPCWrappedError (HTTPTooManyRequests message)))
         \<and> suffix '' Limit may reset in 1 seconds.''
             (faultString (XMLRPCWrappedError (HTTPTooManyRequests message))))"
proof -
  have h: "\<not> rl_test (ratelimiter example_request) (remote_addr example_request)
             (rl_hit (ratelimiter example_request) (remote_addr example_request)
                (limiter (example_world 2)))"
    by (simp add: example_request_def example_limiter_def example_world_def)
  have r: "rl_resets_in (ratelimiter example_request) (remote_addr example_request)
             (rl_hit (ratelimiter example_request) (remote_addr example_request)
                (limiter (example_world 2))) = Some example_resets"
    by (simp add: example_request_def example_limiter_def)
  have m: "total_microseconds example_resets = 1500000"
    by (simp add: total_microseconds_def example_resets_def)
  have n: "py_int (total_seconds example_resets) = 1"
    by (simp add: py_int_total_seconds m)
  have s: "str_int 1 = ''1''"
    by code_simp
  from ratelimit_over_quota_message
         [OF h, of "mapper_view example_repr example_function"]
  show ?thesis
    using h by (auto simp: r n s m)
qed

text \<open>
  C1, as the claim states it, fails for a reset time of one and a half seconds: the
  ceiling, floored at 1, is 2, but the message says \<open>1 seconds\<close> and the text
  \<open>Limit may reset in 2 seconds\<close> does not occur in it.
\<close>

theorem ratelimit_ceiling_counterexample:
  "faultString (XMLRPCWrappedError (HTTPTooManyRequests (ratelimit_message (Some example_resets)))) =
     ''HTTPTooManyRequests: The action could not be performed because there were too many requests by the client. Limit may reset in 1 seconds.''
   \<and> max 1 \<lceil>total_seconds example_resets\<rceil> = 2
   \<and> \<not> sublist (''Limit may reset in '' @ str_int (max 1 \<lceil>total_seconds example_resets\<rceil>) @
                  '' seconds'')
         (faultString (XMLRPCWrappedError (HTTPTooManyRequests
            (ratelimit_message (Some example_resets)))))"
proof -
  have n: "py_int (total_seconds example_resets) = 1"
    by (simp add: py_int_total_seconds total_microseconds_def example_resets_def)
  have s: "str_int 1 = ''1''"
    by code_simp
  have t: "str_int 2 = ''2''"
    by code_simp
  have c: "\<lceil>total_seconds example_resets\<rceil> = 2"
    using ceiling_true_divide [of 1500000]
    by (simp add: total_seconds_def total_microseconds_def example_resets_def)
  have m: "faultString (XMLRPCWrappedError (HTTPTooManyRequests
             (ratelimit_message (Some example_resets)))) =
     ''HTTPTooManyRequests: The action could not be performed because there were too many requests by the client. Limit may reset in 1 seconds.''"
    by (simp add: HTTPTooManyRequests_def ratelimit_message_def n s)
  have x: "\<not> sublist ''Limit may reset in 2 seconds''
     ''HTTPTooManyRequests: The action could not be performed because there were too many requests by the client. Limit may reset in 1 seconds.''"
    by code_simp
  show ?thesis
    unfolding m c using x by (simp add: t)
qed

text \<open>
  C3. On every call \<open>ratelimit\<close> first records a hit for the caller and then asks the
  limiter, about the state that already holds the hit, whether the caller is within
  quota. An admitted call reaches the wrapped view with exactly that one hit and the test
  in its trace; a rejected call ends with the fault and the hit stays recorded. Around a
  view that records nothing, the trace gains exactly one hit of the caller, whatever the
  outcome.
\<close>

theorem ratelimit_records_hit_before_test:
  "(let addr = remote_addr request;
        rl = ratelimiter request;
        counted = rl_hit rl addr (limiter w);
        before = trace w @ [LimiterHit addr, LimiterTest addr]
    in (if rl_test rl addr counted
        then ratelimit f request w =
               f request
                 (w\<lparr>limiter := counted,
                    trace := before @ [MetricsIncrement ''warehouse.xmlrpc.ratelimiter.hit'' []]\<rparr>)
        else ratelimit f request w =
               (Inl (Fault (XMLRPCWrappedError (HTTPTooManyRequests
                  (ratelimit_message (rl_resets_in rl addr counted))))),
                w\<lparr>limiter := counted,
                   trace := before @
                     [MetricsIncrement ''warehouse.xmlrpc.ratelimiter.exceeded'' [],
                      LimiterResetsIn addr]\<rparr>))
       \<and> hits addr before = hits addr (trace w) + 1
       \<and> hits addr (trace (snd (ratelimit (\<lambda>request w'. (result, w')) request w))) =
           hits addr (trace w) + 1)"
proof -
  let ?addr = "remote_addr request"
  let ?rl = "ratelimiter request"
  let ?counted = "rl_hit ?rl ?addr (limiter w)"
  let ?before = "trace w @ [LimiterHit ?addr, LimiterTest ?addr]"
  have run: "ratelimit g request w =
      (if rl_test ?rl ?addr ?counted
       then g request
              (w\<lparr>limiter := ?counted,
                 trace := ?before @ [MetricsIncrement ''warehouse.xmlrpc.ratelimiter.hit'' []]\<rparr>)
       else (Inl (Fault (XMLRPCWrappedError (HTTPTooManyRequests
               (ratelimit_message (rl_resets_in ?rl ?addr ?counted))))),
             w\<lparr>limiter := ?counted,
                trace := ?before @
                  [MetricsIncrement ''warehouse.xmlrpc.ratelimiter.exceeded'' [],
                   LimiterResetsIn ?addr]\<rparr>))" for g
    by (simp add: ratelimit_def log_event_def Let_def)
  have one: "hits ?addr ?before = hits ?addr (trace w) + 1"
    by (simp add: hits_def)
  have own: "hits ?addr (trace (snd (ratelimit (\<lambda>request w'. (result, w')) request w))) =
               hits ?addr (trace w) + 1"
    by (simp add: run hits_def)
  show ?thesis
    unfolding Let_def using run [of f] one own by (simp only: if_split) simp
qed

section \<open>Properties of the registration\<close>

lemma find_registration_fresh:
  assumes "\<forall>r \<in> set registry. rpc_method (reg_kwargs r) \<noteq> m"
  shows "find_registration (registry @ rs) endpoint m = find_registration rs endpoint m"
  using assms by (induction registry) simp_all

lemma xmlrpc_method_registry:
  "snd (xmlrpc_method kwargs f registry) =
     registry @
       [\<lparr>reg_endpoint = ''xmlrpc.pypi'', reg_kwargs = update_kwargs kwargs, reg_fn = f\<rparr>,
        \<lparr>reg_endpoint = ''xmlrpc.pypi_slash'', reg_kwargs = update_kwargs kwargs, reg_fn = f\<rparr>,
        \<lparr>reg_endpoint = ''xmlrpc.RPC2'', reg_kwargs = update_kwargs kwargs, reg_fn = f\<rparr>]"
  by (simp add: xmlrpc_method_def pyramid_xmlrpc_method_def Let_def)

lemma derived_view_pipeline:
  "derived_view repr_str (update_kwargs kwargs) f =
     submit_xmlrpc_metrics (rpc_method kwargs) (ratelimit (mapper_view repr_str f))"
  by (simp add: derived_view_def update_kwargs_def)

text \<open>
  C4. After \<open>xmlrpc_method\<close> has registered a function under a method name that no
  earlier registration uses, each of the three endpoints finds a registration with the
  same keyword arguments and the same function. Whatever view the framework derives from
  the keyword arguments and the function, a call through any of the three endpoints runs
  that one view on the request and the state of the external services, so the results,
  the faults and the final states are identical. With Pyramid's derivation the view is
  metrics around rate limiting around validation around the function, for every
  endpoint.
\<close>

theorem aliases_share_one_pipeline:
  assumes "\<forall>r \<in> set registry. rpc_method (reg_kwargs r) \<noteq> rpc_method kwargs"
  shows "\<forall>e \<in> set aliases.
           find_registration (snd (xmlrpc_method kwargs f registry)) e (rpc_method kwargs) =
             Some \<lparr>reg_endpoint = e, reg_kwargs = update_kwargs kwargs, reg_fn = f\<rparr>
           \<and> call_endpoint derive (snd (xmlrpc_method kwargs f registry)) e (rpc_method kwargs)
               request w =
               Some (derive (update_kwargs kwargs) f request w)
           \<and> call_endpoint (derived_view repr_str) (snd (xmlrpc_method kwargs f registry)) e
               (rpc_method kwargs) request w =
               Some (submit_xmlrpc_metrics (rpc_method kwargs)
                       (ratelimit (mapper_view repr_str f)) request w)"
proof
  fix e
  assume "e \<in> set aliases"
  then have e: "e = ''xmlrpc.RPC2'' \<or> e = ''xmlrpc.pypi'' \<or> e = ''xmlrpc.pypi_slash''"
    by (simp add: aliases_def)
  have m: "rpc_method (update_kwargs kwargs) = rpc_method kwargs"
    by (simp add: update_kwargs_def)
  have found: "find_registration (snd (xmlrpc_method kwargs f registry)) e (rpc_method kwargs) =
                 Some \<lparr>reg_endpoint = e, reg_kwargs = update_kwargs kwargs, reg_fn = f\<rparr>"
    unfolding xmlrpc_method_registry find_registration_fresh [OF assms]
    using e by (auto simp: m)
  then show "find_registration (snd (xmlrpc_method kwargs f registry)) e (rpc_method kwargs) =
             Some \<lparr>reg_endpoint = e, reg_kwargs = update_kwargs kwargs, reg_fn = f\<rparr>
           \<and> call_endpoint derive (snd (xmlrpc_method kwargs f registry)) e (rpc_method kwargs)
               request w =
               Some (derive (update_kwargs kwargs) f request w)
           \<and> call_endpoint (derived_view repr_str) (snd (xmlrpc_method kwargs f registry)) e
               (rpc_method kwargs) request w =
               Some (submit_xmlrpc_metrics (rpc_method kwargs)
                       (ratelimit (mapper_view repr_str f)) request w)"
    by (simp add: call_endpoint_def derived_view_pipeline)
qed

theorem aliases_share_one_pipeline_witness:
  "call_endpoint (derived_view example_repr) (snd (xmlrpc_method (plain_kwargs ''echo'') example_function []))
     ''xmlrpc.pypi'' ''echo'' example_request (example_world 0) =
     call_endpoint (derived_view example_repr) (snd (xmlrpc_method (plain_kwargs ''echo'') example_function []))
       ''xmlrpc.RPC2'' ''echo'' example_request (example_world 0)
   \<and> call_endpoint (derived_view example_repr) (snd (xmlrpc_method (plain_kwargs ''echo'') example_function []))
       ''xmlrpc.pypi_slash'' ''echo'' example_request (example_world 0) =
       call_endpoint (derived_view example_repr) (snd (xmlrpc_method (plain_kwargs ''echo'') example_function []))
         ''xmlrpc.RPC2'' ''echo'' example_request (example_world 0)
   \<and> call_endpoint (derived_view example_repr) (snd (xmlrpc_method (plain_kwargs ''echo'') example_function []))
       ''xmlrpc.RPC2'' ''echo'' example_request (example_world 0) =
       Some (Inl (Fault (XMLRPCInvalidParamTypes
               ''('name',): str type expected; ('count',): value is not a valid integer'')),
             \<lparr>limiter = 1, db = example_db,
              trace = [MetricsIncrement ''warehouse.xmlrpc.call'' [''rpc_method:echo''],
                       MetricsTimedEnter ''warehouse.xmlrpc.timing'' [''rpc_method:echo''],
                       LimiterHit ''192.0.2.1'',
                       LimiterTest ''192.0.2.1'',
                       MetricsIncrement ''warehouse.xmlrpc.ratelimiter.hit'' [],
                       MetricsTimedExit ''warehouse.xmlrpc.timing'' [''rpc_method:echo'']]\<rparr>)"
proof -
  have m: "rpc_method (plain_kwargs ''echo'' :: nat view_kwargs) = ''echo''"
    by (simp add: plain_kwargs_def)
  have fresh: "\<forall>r \<in> set ([] :: nat registration list).
                 rpc_method (reg_kwargs r) \<noteq> rpc_method (plain_kwargs ''echo'' :: nat view_kwargs)"
    by simp
  note shared = aliases_share_one_pipeline
                  [OF fresh, of example_function "derived_view example_repr" example_request
                     "example_world 0" example_repr]
  have run: "submit_xmlrpc_metrics ''echo'' (ratelimit (mapper_view example_repr example_function))
               example_request (example_world 0) =
       (Inl (Fault (XMLRPCInvalidParamTypes
               ''('name',): str type expected; ('count',): value is not a valid integer'')),
        \<lparr>limiter = 1, db = example_db,
         trace = [MetricsIncrement ''warehouse.xmlrpc.call'' [''rpc_method:echo''],
                  MetricsTimedEnter ''warehouse.xmlrpc.timing'' [''rpc_method:echo''],
                  LimiterHit ''192.0.2.1'',
                  LimiterTest ''192.0.2.1'',
                  MetricsIncrement ''warehouse.xmlrpc.ratelimiter.hit'' [],
                  MetricsTimedExit ''warehouse.xmlrpc.timing'' [''rpc_method:echo'']]\<rparr>)"
    by (simp add: submit_xmlrpc_metrics_def ratelimit_def mapper_view_def mapply_def
        log_event_def Let_def example_request_def example_world_def example_limiter_def
        example_function_def example_errors_def render_error_def str_tuple_def
        example_repr_def ascii_def)
  from shared show ?thesis
    by (simp add: aliases_def m run derived_view_pipeline)
qed

section \<open>Properties of the handlers\<close>

lemma deprecated_call:
  assumes body: "\<And>args kwargs w0.
                   fn_call fn args kwargs request w0 = (Inl (Fault (XMLRPCWrappedError e)), w0)"
  shows "case derived_view repr_str (update_kwargs (plain_kwargs m)) fn request w of
           (r, w') \<Rightarrow>
             db_queries (trace w') = db_queries (trace w)
             \<and> db w' = db w
             \<and> r = (if \<not> rl_test (ratelimiter request) (remote_addr request)
                             (rl_hit (ratelimiter request) (remote_addr request) (limiter w))
                    then Inl (Fault (XMLRPCWrappedError (HTTPTooManyRequests
                           (ratelimit_message
                              (rl_resets_in (ratelimiter request) (remote_addr request)
                                 (rl_hit (ratelimiter request) (remote_addr request)
                                    (limiter w)))))))
                    else (case fn_validate fn (rpc_args request) [] of
                            ValidationError errors \<Rightarrow>
                              Inl (Fault (XMLRPCInvalidParamTypes
                                     (join ''; '' (map (render_error repr_str) errors))))
                          | Valid \<Rightarrow> Inl (Fault (XMLRPCWrappedError e))))"
proof (cases "rl_test (ratelimiter request) (remote_addr request)
                (rl_hit (ratelimiter request) (remote_addr request) (limiter w))")
  case False
  then show ?thesis
    by (simp add: derived_view_pipeline submit_xmlrpc_metrics_def ratelimit_def log_event_def
        Let_def db_queries_def)
next
  case True
  then show ?thesis
    by (cases "fn_validate fn (rpc_args request) []")
      (simp_all add: derived_view_pipeline submit_xmlrpc_metrics_def ratelimit_def
        mapper_view_def mapply_def body log_event_def Let_def db_queries_def)
qed

lemma deprecated_handlers_raise:
  "search request spec operator w =
     (Inl (Fault (XMLRPCWrappedError (RuntimeError
        (''PyPI no longer supports 'pip search' (or XML-RPC search). Please use https://'' @
         (case req_settings request ''warehouse.domain'' of
            Some d \<Rightarrow> d
          | None \<Rightarrow> req_domain request) @
         ''/search (via a browser) instead. See https://warehouse.pypa.io/api-reference/xml-rpc.html#deprecated-methods for more information.'')))),
      w)"
  "top_packages request num w =
     (Inl (Fault (XMLRPCWrappedError (RuntimeError
        ''This API has been removed. Use BigQuery instead. See https://warehouse.pypa.io/api-reference/xml-rpc.html#deprecated-methods for more information.''))),
      w)"
  "package_data request package_name version w =
     (Inl (Fault (XMLRPCWrappedError (RuntimeError
        ''This API has been deprecated. See https://warehouse.pypa.io/api-reference/xml-rpc.html#deprecated-methods for more information.''))),
      w)"
  "package_urls request package_name version w =
     (Inl (Fault (XMLRPCWrappedError (RuntimeError
        ''This API has been deprecated. See https://warehouse.pypa.io/api-reference/xml-rpc.html#deprecated-methods for more information.''))),
      w)"
  "multicall request args w =
     (Inl (Fault (XMLRPCWrappedError (ValueError
        ''MultiCall requests have been deprecated, use individual requests instead.''))),
      w)"
  by (simp_all add: search_def top_packages_def package_data_def package_urls_def multicall_def
      XMLRPC_DEPRECATION_URL_def Let_def)

text \<open>
  C7, as the code has it. For each of the deprecated and removed methods \<open>search\<close>,
  \<open>top_packages\<close>, \<open>package_data\<close>, \<open>package_urls\<close> and \<open>system.multicall\<close>:
  the handler raises a wrapped error with one fixed message (for \<open>search\<close> fixed by
  the domain of the request) for every argument set that reaches it, and it leaves the
  state of the external services as it was. A call of the registered method never
  succeeds and never records a database query; it ends with the handler's wrapped error
  when the caller is within quota and pydantic accepts the arguments, with an
  invalid-parameters fault when pydantic rejects them, and with the rate limiter's
  wrapped error when the caller is over quota.
\<close>

theorem deprecated_methods_fault_without_query:
  "\<forall>(m, fn, e) \<in> set
      [(''search'', search_function validate,
        RuntimeError
          (''PyPI no longer supports 'pip search' (or XML-RPC search). Please use https://'' @
           (case req_settings request ''warehouse.domain'' of
              Some d \<Rightarrow> d
            | None \<Rightarrow> req_domain request) @
           ''/search (via a browser) instead. See https://warehouse.pypa.io/api-reference/xml-rpc.html#deprecated-methods for more information.'')),
       (''top_packages'', top_packages_function validate,
        RuntimeError
          ''This API has been removed. Use BigQuery instead. See https://warehouse.pypa.io/api-reference/xml-rpc.html#deprecated-methods for more information.''),
       (''package_data'', package_data_function validate,
        RuntimeError
          ''This API has been deprecated. See https://warehouse.pypa.io/api-reference/xml-rpc.html#deprecated-methods for more information.''),
       (''package_urls'', package_urls_function validate,
        RuntimeError
          ''This API has been deprecated. See https://warehouse.pypa.io/api-reference/xml-rpc.html#deprecated-methods for more information.''),
       (''system.multicall'', multicall_function validate,
        ValueError
          ''MultiCall requests have been deprecated, use individual requests instead.'')].
     (\<forall>args kwargs w0.
        fn_call fn args kwargs request w0 = (Inl (Fault (XMLRPCWrappedError e)), w0))
     \<and> (case derived_view repr_str (update_kwargs (plain_kwargs m)) fn request w of
          (r, w') \<Rightarrow>
            db_queries (trace w') = db_queries (trace w)
            \<and> db w' = db w
            \<and> r = (if \<not> rl_test (ratelimiter request) (remote_addr request)
                            (rl_hit (ratelimiter request) (remote_addr request) (limiter w))
                   then Inl (Fault (XMLRPCWrappedError (HTTPTooManyRequests
                          (ratelimit_message
                             (rl_resets_in (ratelimiter request) (remote_addr request)
                                (rl_hit (ratelimiter request) (remote_addr request)
                                   (limiter w)))))))
                   else (case fn_validate fn (rpc_args request) [] of
                           ValidationError errors \<Rightarrow>
                             Inl (Fault (XMLRPCInvalidParamTypes
                                    (join ''; '' (map (render_error repr_str) errors))))
                         | Valid \<Rightarrow> Inl (Fault (XMLRPCWrappedError e)))))"
proof -
  have search: "fn_call (search_function validate) args kwargs request w0 =
      (Inl (Fault (XMLRPCWrappedError (RuntimeError
        (''PyPI no longer supports 'pip search' (or XML-RPC search). Please use https://'' @
         (case req_settings request ''warehouse.domain'' of
            Some d \<Rightarrow> d
          | None \<Rightarrow> req_domain request) @
         ''/search (via a browser) instead. See https://warehouse.pypa.io/api-reference/xml-rpc.html#deprecated-methods for more information.'')))),
       w0)" for args kwargs and w0 :: "'a world"
    by (simp only: search_function_def py_function.simps deprecated_handlers_raise)
  have top_packages: "fn_call (top_packages_function validate) args kwargs request w0 =
      (Inl (Fault (XMLRPCWrappedError (RuntimeError
        ''This API has been removed. Use BigQuery instead. See https://warehouse.pypa.io/api-reference/xml-rpc.html#deprecated-methods for more information.''))),
       w0)" for args kwargs and w0 :: "'a world"
    by (simp only: top_packages_function_def py_function.simps deprecated_handlers_raise)
  have package_data: "fn_call (package_data_function validate) args kwargs request w0 =
      (Inl (Fault (XMLRPCWrappedError (RuntimeError
        ''This API has been deprecated. See https://warehouse.pypa.io/api-reference/xml-rpc.html#deprecated-methods for more information.''))),
       w0)" for args kwargs and w0 :: "'a world"
    by (simp only: package_data_function_def py_function.simps deprecated_handlers_raise)
  have package_urls: "fn_call (package_urls_function validate) args kwargs request w0 =
      (Inl (Fault (XMLRPCWrappedError (RuntimeError
        ''This API has been deprecated. See https://warehouse.pypa.io/api-reference/xml-rpc.html#deprecated-methods for more information.''))),
       w0)" for args kwargs and w0 :: "'a world"
    by (simp only: package_urls_function_def py_function.simps deprecated_handlers_raise)
  have multicall: "fn_call (multicall_function validate) args kwargs request w0 =
      (Inl (Fault (XMLRPCWrappedError (ValueError
        ''MultiCall requests have been deprecated, use individual requests instead.''))),
       w0)" for args kwargs and w0 :: "'a world"
    by (simp only: multicall_function_def py_function.simps deprecated_handlers_raise)
  note calls =
    deprecated_call [OF search] deprecated_call [OF top_packages]
    deprecated_call [OF package_data] deprecated_call [OF package_urls]
    deprecated_call [OF multicall]
  show ?thesis
    unfolding list.set ball_simps prod.case
    by (intro conjI allI TrueI search top_packages package_data package_urls multicall calls)
qed

theorem deprecated_methods_fault_without_query_witness:
  "derived_view example_repr (update_kwargs (plain_kwargs ''top_packages''))
     (top_packages_function pydantic_top_packages) (example_request\<lparr>rpc_args := [PInt 5]\<rparr>)
     (example_world 0) =
     (Inl (Fault (XMLRPCWrappedError (RuntimeError
        ''This API has been removed. Use BigQuery instead. See https://warehouse.pypa.io/api-reference/xml-rpc.html#deprecated-methods for more information.''))),
      \<lparr>limiter = 1, db = example_db,
       trace = [MetricsIncrement ''warehouse.xmlrpc.call'' [''rpc_method:top_packages''],
                MetricsTimedEnter ''warehouse.xmlrpc.timing'' [''rpc_method:top_packages''],
                LimiterHit ''192.0.2.1'',
                LimiterTest ''192.0.2.1'',
                MetricsIncrement ''warehouse.xmlrpc.ratelimiter.hit'' [],
                MetricsTimedExit ''warehouse.xmlrpc.timing'' [''rpc_method:top_packages'']]\<rparr>)
   \<and> db_queries (trace (snd (derived_view example_repr
         (update_kwargs (plain_kwargs ''top_packages''))
         (top_packages_function pydantic_top_packages) (example_request\<lparr>rpc_args := [PInt 5]\<rparr>)
         (example_world 0)))) = []"
proof -
  note all = deprecated_methods_fault_without_query
    [where validate = pydantic_top_packages
       and request = "(example_request\<lparr>rpc_args := [PInt 5]\<rparr>)"
       and repr_str = example_repr and w = "example_world 0"]
  note top_packages =
    all [unfolded list.set ball_simps prod.case, THEN conjunct2, THEN conjunct1, THEN conjunct2]
  have adm: "rl_test (ratelimiter (example_request\<lparr>rpc_args := [PInt 5]\<rparr>))
               (remote_addr (example_request\<lparr>rpc_args := [PInt 5]\<rparr>))
               (rl_hit (ratelimiter (example_request\<lparr>rpc_args := [PInt 5]\<rparr>))
                  (remote_addr (example_request\<lparr>rpc_args := [PInt 5]\<rparr>))
                  (limiter (example_world 0)))"
    by (simp add: example_request_def example_limiter_def example_world_def)
  have ok: "fn_validate (top_packages_function pydantic_top_packages :: nat py_function)
              (rpc_args (example_request\<lparr>rpc_args := [PInt 5]\<rparr>)) [] = Valid"
    by (simp add: top_packages_function_def pydantic_top_packages_def)
  from top_packages adm ok
  have result: "fst (derived_view example_repr (update_kwargs (plain_kwargs ''top_packages''))
                  (top_packages_function pydantic_top_packages) (example_request\<lparr>rpc_args := [PInt 5]\<rparr>) (example_world 0)) =
                  Inl (Fault (XMLRPCWrappedError (RuntimeError
                    ''This API has been removed. Use BigQuery instead. See https://warehouse.pypa.io/api-reference/xml-rpc.html#deprecated-methods for more information.'')))"
    and queries: "db_queries (trace (snd (derived_view example_repr
                    (update_kwargs (plain_kwargs ''top_packages''))
                    (top_packages_function pydantic_top_packages) (example_request\<lparr>rpc_args := [PInt 5]\<rparr>) (example_world 0)))) =
                  db_queries (trace (example_world 0))"
    by (simp_all add: split_beta)
  have state: "snd (derived_view example_repr (update_kwargs (plain_kwargs ''top_packages''))
                 (top_packages_function pydantic_top_packages) (example_request\<lparr>rpc_args := [PInt 5]\<rparr>) (example_world 0)) =
      \<lparr>limiter = 1, db = example_db,
       trace = [MetricsIncrement ''warehouse.xmlrpc.call'' [''rpc_method:top_packages''],
                MetricsTimedEnter ''warehouse.xmlrpc.timing'' [''rpc_method:top_packages''],
                LimiterHit ''192.0.2.1'',
                LimiterTest ''192.0.2.1'',
                MetricsIncrement ''warehouse.xmlrpc.ratelimiter.hit'' [],
                MetricsTimedExit ''warehouse.xmlrpc.timing'' [''rpc_method:top_packages'']]\<rparr>"
    by (simp add: derived_view_pipeline submit_xmlrpc_metrics_def ratelimit_def mapper_view_def
        mapply_def log_event_def Let_def example_request_def example_world_def
        example_limiter_def top_packages_function_def pydantic_top_packages_def
        top_packages_def plain_kwargs_def split_beta)
  have none: "db_queries (trace (example_world 0)) = []"
    by (simp add: example_world_def db_queries_def)
  from result state queries none show ?thesis
    by (simp only: prod_eq_iff fst_conv snd_conv simp_thms)
qed

text \<open>
  C7, as the claim states it, fails for two calls of \<open>top_packages\<close>. With the
  argument \<open>'x'\<close>, which is not an integer, the call raises an invalid-parameters fault
  and not a wrapped error. With a caller over quota the call raises the rate limiter's
  wrapped error, whose message is not the one of the method and changes with the reset
  time.
\<close>

theorem deprecated_call_counterexample:
  "fst (derived_view example_repr (update_kwargs (plain_kwargs ''top_packages''))
          (top_packages_function pydantic_top_packages)
          (example_request\<lparr>rpc_args := [PStr (ascii ''x'')]\<rparr>) (example_world 0)) =
     Inl (Fault (XMLRPCInvalidParamTypes ''('num',): value is not a valid integer''))
   \<and> fst (derived_view example_repr (update_kwargs (plain_kwargs ''top_packages''))
            (top_packages_function pydantic_top_packages)
            (example_request\<lparr>rpc_args := [PInt 5]\<rparr>) (example_world 2)) =
       Inl (Fault (XMLRPCWrappedError (HTTPTooManyRequests
         ''The action could not be performed because there were too many requests by the client. Limit may reset in 1 seconds.'')))"
proof -
  have n: "py_int (total_seconds example_resets) = 1"
    by (simp add: py_int_total_seconds total_microseconds_def example_resets_def)
  have s: "str_int 1 = ''1''"
    by code_simp
  have a: "fst (derived_view example_repr (update_kwargs (plain_kwargs ''top_packages''))
          (top_packages_function pydantic_top_packages)
          (example_request\<lparr>rpc_args := [PStr (ascii ''x'')]\<rparr>) (example_world 0)) =
     Inl (Fault (XMLRPCInvalidParamTypes ''('num',): value is not a valid integer''))"
    by (simp add: derived_view_pipeline submit_xmlrpc_metrics_def ratelimit_def mapper_view_def
        mapply_def log_event_def Let_def example_request_def example_world_def
        example_limiter_def top_packages_function_def pydantic_top_packages_def
        plain_kwargs_def render_error_def str_tuple_def example_repr_def ascii_def
        split_beta)
  have b: "fst (derived_view example_repr (update_kwargs (plain_kwargs ''top_packages''))
            (top_packages_function pydantic_top_packages)
            (example_request\<lparr>rpc_args := [PInt 5]\<rparr>) (example_world 2)) =
       Inl (Fault (XMLRPCWrappedError (HTTPTooManyRequests
         ''The action could not be performed because there were too many requests by the client. Limit may reset in 1 seconds.'')))"
    by (simp add: derived_view_pipeline submit_xmlrpc_metrics_def ratelimit_def
        log_event_def Let_def example_request_def example_world_def
        example_limiter_def plain_kwargs_def ratelimit_message_def n s split_beta)
  from a b show ?thesis by (rule conjI)
qed

lemma substitute_project: "substitute (ascii ''project/%s'') x = ascii ''project/'' @ x"
  by (simp add: ascii_def)

text \<open>
  C8. A method registered with the all-projects policy resolves to the tag
  \<open>all-projects\<close> with a time to live of one hour, whatever its arguments. A method
  registered with the by-project policy resolves to \<open>project/\<close> followed by the
  canonical form of its first argument, with a time to live of 48 hours; \<open>Foo-Bar\<close>
  and \<open>foo_bar\<close> have the same canonical form and so the same tag.
\<close>

theorem cache_tags:
  "resolveTag (update_kwargs (xmlrpc_cache_all_projects_kwargs m)) args =
     Some \<lparr>ct_tag = ascii ''all-projects'', ct_ttl = 3600\<rparr>
   \<and> resolveTag (update_kwargs (xmlrpc_cache_by_project_kwargs m)) (PStr name # rest) =
       Some \<lparr>ct_tag = ascii ''project/'' @ canonicalize_name name, ct_ttl = 172800\<rparr>
   \<and> canonicalize_name (ascii ''Foo-Bar'') = ascii ''foo-bar''
   \<and> canonicalize_name (ascii ''foo_bar'') = ascii ''foo-bar''
   \<and> resolveTag (update_kwargs (xmlrpc_cache_by_project_kwargs m)) [PStr (ascii ''Foo-Bar'')] =
       resolveTag (update_kwargs (xmlrpc_cache_by_project_kwargs m)) [PStr (ascii ''foo_bar'')]"
proof -
  have fixed: "resolveTag (update_kwargs (xmlrpc_cache_all_projects_kwargs m)) args =
                 Some \<lparr>ct_tag = ascii ''all-projects'', ct_ttl = 3600\<rparr>"
    by (simp add: resolveTag_def update_kwargs_def xmlrpc_cache_all_projects_kwargs_def
        plain_kwargs_def)
  have derived: "resolveTag (update_kwargs (xmlrpc_cache_by_project_kwargs m)) (PStr x # xs) =
                   Some \<lparr>ct_tag = ascii ''project/'' @ canonicalize_name x, ct_ttl = 172800\<rparr>"
    for x xs
    by (simp add: resolveTag_def update_kwargs_def xmlrpc_cache_by_project_kwargs_def
        plain_kwargs_def substitute_project)
  have a: "canonicalize_name (ascii ''Foo-Bar'') = ascii ''foo-bar''"
    by (simp add: canonicalize_name_def ascii_def is_separator_def lower_char_def)
  have b: "canonicalize_name (ascii ''foo_bar'') = ascii ''foo-bar''"
    by (simp add: canonicalize_name_def ascii_def is_separator_def lower_char_def)
  show ?thesis
    by (simp only: fixed derived a b simp_thms)
qed

lemma query_page:
  "set (take n (sort_key k (filter P xs))) \<subseteq> {x \<in> set xs. P x}
   \<and> sorted (map k (take n (sort_key k (filter P xs))))
   \<and> length (take n (sort_key k (filter P xs))) \<le> n"
proof -
  have "set (take n (sort_key k (filter P xs))) \<subseteq> set (sort_key k (filter P xs))"
    by (rule set_take_subset)
  then have a: "set (take n (sort_key k (filter P xs))) \<subseteq> {x \<in> set xs. P x}"
    by auto
  have "sorted (take n (map k (sort_key k (filter P xs))))"
    by (intro sorted_wrt_take sorted_sort_key)
  then have b: "sorted (map k (take n (sort_key k (filter P xs))))"
    by (simp only: take_map)
  from a b show ?thesis by simp
qed

text \<open>
  C9. \<open>changelog_since_serial\<close> returns, after one query, one row for each entry of a
  list of journal entries that all have an id strictly greater than the serial, that is
  in ascending order of id and that has at most 50000 entries; each row carries the id of
  its entry in its last column. \<open>changelog\<close>, for a timestamp that
  \<open>utcfromtimestamp\<close> accepts, returns one row for each entry of a list of journal
  entries that were all submitted strictly after the timestamp, that is in ascending
  order of id and that has at most 50000 entries; the id is the last column of a row
  when ids are asked for. For any other timestamp it raises before it queries.
\<close>

theorem changelog_bounds:
  "(\<exists>entries.
      changelog_since_serial request serial w =
        (Inr (PList (map (\<lambda>e. PTuple [opt_str (je_name e),
                                         opt_str (je_version e),
                                         PInt (py_int (timestamp (je_submitted_date e))),
                                         opt_str (clean_for_xml (je_action e)),
                                         PInt (je_id e)])
                        entries)),
         log_event (DbQuery ''JournalEntry'') w)
      \<and> (\<forall>e \<in> set entries. e \<in> set (journals (db w)) \<and> serial < je_id e)
      \<and> sorted (map je_id entries)
      \<and> length entries \<le> 50000)
   \<and> (if - 62135596800 \<le> since \<and> since \<le> 253402300799
       then \<exists>entries.
              changelog request since with_ids w =
                (Inr (PList (map (\<lambda>e. PTuple
                                        (if with_ids
                                         then [opt_str (je_name e),
                                               opt_str (je_version e),
                                               PInt (py_int (timestamp (je_submitted_date e))),
                                               opt_str (je_action e),
                                               PInt (je_id e)]
                                         else [opt_str (je_name e),
                                               opt_str (je_version e),
                                               PInt (py_int (timestamp (je_submitted_date e))),
                                               opt_str (je_action e)]))
                                entries)),
                 log_event (DbQuery ''JournalEntry'') w)
              \<and> (\<forall>e \<in> set entries.
                    e \<in> set (journals (db w)) \<and> since * 10 ^ 6 < je_submitted_date e)
              \<and> sorted (map je_id entries)
              \<and> length entries \<le> 50000
       else changelog request since with_ids w = (Inl (PyError TimestampOutOfRange), w))"
proof (intro conjI)
  let ?entries = "changelog_since_serial_entries (db w) serial"
  have "changelog_since_serial request serial w =
          (Inr (PList (map (\<lambda>e. PTuple [opt_str (je_name e),
                                           opt_str (je_version e),
                                           PInt (py_int (timestamp (je_submitted_date e))),
                                           opt_str (clean_for_xml (je_action e)),
                                           PInt (je_id e)])
                          ?entries)),
           log_event (DbQuery ''JournalEntry'') w)"
    by (simp add: changelog_since_serial_def)
  moreover have "\<forall>e \<in> set ?entries. e \<in> set (journals (db w)) \<and> serial < je_id e"
    using query_page [of 50000 je_id "\<lambda>e. je_id e > serial" "journals (db w)"]
    unfolding changelog_since_serial_entries_def by blast
  moreover have "sorted (map je_id ?entries)"
    unfolding changelog_since_serial_entries_def using query_page by blast
  moreover have "length ?entries \<le> 50000"
    unfolding changelog_since_serial_entries_def by simp
  ultimately show "\<exists>entries.
      changelog_since_serial request serial w =
        (Inr (PList (map (\<lambda>e. PTuple [opt_str (je_name e),
                                         opt_str (je_version e),
                                         PInt (py_int (timestamp (je_submitted_date e))),
                                         opt_str (clean_for_xml (je_action e)),
                                         PInt (je_id e)])
                        entries)),
         log_event (DbQuery ''JournalEntry'') w)
      \<and> (\<forall>e \<in> set entries. e \<in> set (journals (db w)) \<and> serial < je_id e)
      \<and> sorted (map je_id entries)
      \<and> length entries \<le> 50000"
    by blast
next
  let ?entries = "changelog_entries (db w) (since * 10 ^ 6)"
  have rows: "changelog request since with_ids w =
                (Inr (PList (map (\<lambda>e. PTuple
                                        (if with_ids
                                         then [opt_str (je_name e),
                                               opt_str (je_version e),
                                               PInt (py_int (timestamp (je_submitted_date e))),
                                               opt_str (je_action e),
                                               PInt (je_id e)]
                                         else [opt_str (je_name e),
                                               opt_str (je_version e),
                                               PInt (py_int (timestamp (je_submitted_date e))),
                                               opt_str (je_action e)]))
                                ?entries)),
                 log_event (DbQuery ''JournalEntry'') w)"
    if "- 62135596800 \<le> since \<and> since \<le> 253402300799"
    using that by (simp add: changelog_def utcfromtimestamp_def Let_def comp_def)
  have raises: "changelog request since with_ids w = (Inl (PyError TimestampOutOfRange), w)"
    if "\<not> (- 62135596800 \<le> since \<and> since \<le> 253402300799)"
    using that by (auto simp: changelog_def utcfromtimestamp_def)
  have after: "\<forall>e \<in> set ?entries.
                 e \<in> set (journals (db w)) \<and> since * 10 ^ 6 < je_submitted_date e"
    using query_page [of 50000 je_id "\<lambda>e. je_submitted_date e > since * 10 ^ 6" "journals (db w)"]
    unfolding changelog_entries_def by blast
  have ordered: "sorted (map je_id ?entries)"
    unfolding changelog_entries_def using query_page by blast
  have capped: "length ?entries \<le> 50000"
    unfolding changelog_entries_def by simp
  show "if - 62135596800 \<le> since \<and> since \<le> 253402300799
       then \<exists>entries.
              changelog request since with_ids w =
                (Inr (PList (map (\<lambda>e. PTuple
                                        (if with_ids
                                         then [opt_str (je_name e),
                                               opt_str (je_version e),
                                               PInt (py_int (timestamp (je_submitted_date e))),
                                               opt_str (je_action e),
                                               PInt (je_id e)]
                                         else [opt_str (je_name e),
                                               opt_str (je_version e),
                                               PInt (py_int (timestamp (je_submitted_date e))),
                                               opt_str (je_action e)]))
                                entries)),
                 log_event (DbQuery ''JournalEntry'') w)
              \<and> (\<forall>e \<in> set entries.
                    e \<in> set (journals (db w)) \<and> since * 10 ^ 6 < je_submitted_date e)
              \<and> sorted (map je_id entries)
              \<and> length entries \<le> 50000
       else changelog request since with_ids w = (Inl (PyError TimestampOutOfRange), w)"
  proof (cases "- 62135596800 \<le> since \<and> since \<le> 253402300799")
    case True
    from rows [OF True] after ordered capped show ?thesis
      by (subst if_P [OF True]) blast
  next
    case False
    from raises [OF False] show ?thesis
      by (subst if_not_P [OF False])
  qed
qed

theorem changelog_bounds_witness:
  "changelog_since_serial example_request 5 (example_world 0) =
     (Inr (PList
        [PTuple [PStr (ascii ''a''), PStr (ascii ''1.0''), PInt 2, PNone, PInt 6],
         PTuple [PStr (ascii ''b''), PStr (ascii ''2.0''), PInt 3,
                 PStr (ascii ''new release''), PInt 7]]),
      log_event (DbQuery ''JournalEntry'') (example_world 0))
   \<and> changelog example_request 1 True (example_world 0) =
       (Inr (PList
          [PTuple [PStr (ascii ''a''), PNone, PInt 1, PStr (ascii ''create''), PInt 5],
           PTuple [PStr (ascii ''a''), PStr (ascii ''1.0''), PInt 2, PNone, PInt 6],
           PTuple [PStr (ascii ''b''), PStr (ascii ''2.0''), PInt 3,
                   PStr (ascii ''new release''), PInt 7]]),
        log_event (DbQuery ''JournalEntry'') (example_world 0))
   \<and> (\<exists>entries.
         changelog_since_serial example_request 5 (example_world 0) =
           (Inr (PList (map (\<lambda>e. PTuple [opt_str (je_name e),
                                            opt_str (je_version e),
                                            PInt (py_int (timestamp (je_submitted_date e))),
                                            opt_str (clean_for_xml (je_action e)),
                                            PInt (je_id e)])
                           entries)),
            log_event (DbQuery ''JournalEntry'') (example_world 0))
         \<and> (\<forall>e \<in> set entries. e \<in> set (journals (db (example_world 0))) \<and> 5 < je_id e)
         \<and> sorted (map je_id entries)
         \<and> length entries \<le> 50000)"
proof -
  note bounds = changelog_bounds [of example_request 5 "example_world 0" 1 True]
  have e1: "changelog_since_serial_entries (db (example_world 0)) 5 =
              [example_journal ! 2, example_journal ! 0]"
    by (simp add: changelog_since_serial_entries_def example_world_def example_db_def
        example_journal_def)
  have e2: "changelog_entries (db (example_world 0)) 1000000 =
              [example_journal ! 1, example_journal ! 2, example_journal ! 0]"
    by (simp add: changelog_entries_def example_world_def example_db_def example_journal_def)
  have t: "py_int (timestamp 1500000) = 1" "py_int (timestamp 2000000) = 2"
          "py_int (timestamp 3000000) = 3"
    by (simp_all add: py_int_timestamp)
  have x: "xmlcharrefreplace (ascii ''new release'') = ascii ''new release''"
    by (simp add: xmlcharrefreplace_def ascii_def)
  have i: "strip_illegal (ascii ''new release'') = ascii ''new release''"
    by (simp add: strip_illegal_def illegal_xml_char_def illegal_ranges_def ascii_def)
  have c: "clean_for_xml (Some (ascii ''new release'')) = Some (ascii ''new release'')"
    by (simp add: x i)
  have a: "changelog_since_serial example_request 5 (example_world 0) =
     (Inr (PList
        [PTuple [PStr (ascii ''a''), PStr (ascii ''1.0''), PInt 2, PNone, PInt 6],
         PTuple [PStr (ascii ''b''), PStr (ascii ''2.0''), PInt 3,
                 PStr (ascii ''new release''), PInt 7]]),
      log_event (DbQuery ''JournalEntry'') (example_world 0))"
    by (simp del: clean_for_xml.simps
        add: changelog_since_serial_def e1 example_journal_def opt_str_def t c
          clean_for_xml.simps(1))
  have b: "changelog example_request 1 True (example_world 0) =
       (Inr (PList
          [PTuple [PStr (ascii ''a''), PNone, PInt 1, PStr (ascii ''create''), PInt 5],
           PTuple [PStr (ascii ''a''), PStr (ascii ''1.0''), PInt 2, PNone, PInt 6],
           PTuple [PStr (ascii ''b''), PStr (ascii ''2.0''), PInt 3,
                   PStr (ascii ''new release''), PInt 7]]),
        log_event (DbQuery ''JournalEntry'') (example_world 0))"
    by (simp add: changelog_def utcfromtimestamp_def e2 example_journal_def opt_str_def t)
  from a b bounds [THEN conjunct1] show ?thesis
    by (intro conjI)
qed

lemma filter_none:
  assumes "\<forall>x \<in> set xs. \<not> P x"
  shows "filter P xs = []"
  using assms by (induction xs) simp_all

text \<open>
  C10. When no project has the normalized name of the package, \<open>package_releases\<close>
  returns the empty list; when no release has that name and the version,
  \<open>release_data\<close> returns the empty mapping. Both are normal results after one query,
  not faults.
\<close>

theorem lookup_miss_is_not_a_fault:
  "((\<forall>p \<in> set (projects (db w)).
        p_normalized_name p \<noteq> normalize_pep426_name (db w) package_name)
    \<longrightarrow> package_releases request package_name show_hidden w =
          (Inr (PList []), log_event (DbQuery ''Project'') w))
   \<and> ((\<forall>r \<in> set (releases (db w)).
          \<not> (p_normalized_name (r_project r) = normalize_pep426_name (db w) package_name
             \<and> r_version r = version))
      \<longrightarrow> release_data request package_name version w =
            (Inr (PDict []), log_event (DbQuery ''Release'') w))"
proof (intro conjI impI)
  assume "\<forall>p \<in> set (projects (db w)).
            p_normalized_name p \<noteq> normalize_pep426_name (db w) package_name"
  then have "filter (\<lambda>p. p_normalized_name p = normalize_pep426_name (db w) package_name)
               (projects (db w)) = []"
    by (intro filter_none) simp
  then show "package_releases request package_name show_hidden w =
               (Inr (PList []), log_event (DbQuery ''Project'') w)"
    by (simp add: package_releases_def)
next
  assume "\<forall>r \<in> set (releases (db w)).
            \<not> (p_normalized_name (r_project r) = normalize_pep426_name (db w) package_name
               \<and> r_version r = version)"
  then have "filter (\<lambda>r. p_normalized_name (r_project r) =
                           normalize_pep426_name (db w) package_name
                         \<and> r_version r = version) (releases (db w)) = []"
    by (rule filter_none)
  then show "release_data request package_name version w =
               (Inr (PDict []), log_event (DbQuery ''Release'') w)"
    by (simp add: release_data_def)
qed

theorem lookup_miss_is_not_a_fault_witness:
  "fst (package_releases example_request (ascii ''bar'') True (example_world 0)) = Inr (PList [])
   \<and> fst (release_data example_request (ascii ''foo'') (ascii ''9.9'') (example_world 0)) =
       Inr (PDict [])"
proof -
  have n1: "canonicalize_name (ascii ''bar'') = ascii ''bar''"
    by (simp add: canonicalize_name_def ascii_def is_separator_def lower_char_def)
  have n2: "canonicalize_name (ascii ''foo'') = ascii ''foo''"
    by (simp add: canonicalize_name_def ascii_def is_separator_def lower_char_def)
  have p: "\<forall>p \<in> set (projects (db (example_world 0))).
             p_normalized_name p \<noteq> normalize_pep426_name (db (example_world 0)) (ascii ''bar'')"
    by (simp add: example_world_def example_db_def example_project_def n1) (simp add: ascii_def)
  have r: "\<forall>r \<in> set (releases (db (example_world 0))).
             \<not> (p_normalized_name (r_project r) =
                  normalize_pep426_name (db (example_world 0)) (ascii ''foo'')
                \<and> r_version r = ascii ''9.9'')"
    by (simp add: example_world_def example_db_def example_release_def n2) (simp add: ascii_def)
  from lookup_miss_is_not_a_fault
         [of "example_world 0" "ascii ''bar''" example_request True "ascii ''9.9''"]
       lookup_miss_is_not_a_fault
         [of "example_world 0" "ascii ''foo''" example_request True "ascii ''9.9''"]
       p r
  show ?thesis
    by simp
qed

end
